theory Spec2Isabelle
  imports Complex_Main "HOL-Library.Sublist"
begin

section \<open>Strings of the platform\<close>

text \<open>
  A JavaScript string is a sequence of code units. The development keeps the code units
  U+0000 to U+00FF, which is the type \<^typ>\<open>char\<close>: a \<^typ>\<open>string\<close> here is a
  JavaScript string all of whose code units are below 256 (Latin-1). The category labels
  and the field aliases of the source are such strings.
\<close>

definition toLowerChar :: "char \<Rightarrow> char" where
  \<comment> \<open>\<^verbatim>\<open>String.prototype.toLowerCase\<close> on one code unit below 256: A to Z, and U+00C0 to
      U+00DE without the multiplication sign U+00D7, move up by 32.\<close>
  "toLowerChar c =
     (let n = (of_char c :: nat)
      in if (65 \<le> n \<and> n \<le> 90) \<or> (192 \<le> n \<and> n \<le> 222 \<and> n \<noteq> 215)
         then char_of (n + 32) else c)"

definition toLowerCase :: "string \<Rightarrow> string" where
  "toLowerCase s = map toLowerChar s"

definition isWhiteSpace :: "char \<Rightarrow> bool" where
  \<comment> \<open>White space and line terminators below 256: TAB, LF, VT, FF, CR, SP, NBSP. It is the
      set that \<^verbatim>\<open>trim\<close> strips, that \<^verbatim>\<open>parseFloat\<close> skips and that \<^verbatim>\<open>\s\<close> matches.\<close>
  "isWhiteSpace c = ((of_char c :: nat) \<in> {9, 10, 11, 12, 13, 32, 160})"

definition trim :: "string \<Rightarrow> string" where
  "trim s = rev (dropWhile isWhiteSpace (rev (dropWhile isWhiteSpace s)))"

definition includes' :: "string \<Rightarrow> string \<Rightarrow> bool" where
  \<comment> \<open>\<^verbatim>\<open>s.includes(t)\<close>: \<open>t\<close> occurs in \<open>s\<close> as a contiguous run.\<close>
  "includes' s t = sublist t s"

fun split :: "char \<Rightarrow> string \<Rightarrow> string list" where
  \<comment> \<open>\<^verbatim>\<open>s.split(sep)\<close> for a separator of one code unit; the result is never empty.\<close>
  "split sep [] = [[]]"
| "split sep (c # cs) =
     (if c = sep then [] # split sep cs
      else (case split sep cs of
              [] \<Rightarrow> [[c]]
            | x # xs \<Rightarrow> (c # x) # xs))"

definition isDigit :: "char \<Rightarrow> bool" where
  "isDigit c = (48 \<le> (of_char c :: nat) \<and> (of_char c :: nat) \<le> 57)"

definition digitValue :: "char \<Rightarrow> nat" where
  "digitValue c = (of_char c :: nat) - 48"

definition digitsValue :: "string \<Rightarrow> nat" where
  \<comment> \<open>The number a run of decimal digits denotes; the empty run denotes 0.\<close>
  "digitsValue ds = foldl (\<lambda>acc d. 10 * acc + digitValue d) 0 ds"

subsection \<open>The two replacements of the description\<close>

definition matchBr :: "string \<Rightarrow> string option" where
  \<comment> \<open>A match of \<^verbatim>\<open>/<br\s*\/?>/i\<close> at the start of the string: what follows the match.\<close>
  "matchBr s =
     (case s of
        c0 # c1 # c2 # t \<Rightarrow>
          if c0 = CHR ''<'' \<and> toLowerChar c1 = CHR ''b'' \<and> toLowerChar c2 = CHR ''r''
          then (let t1 = dropWhile isWhiteSpace t;
                    t2 = (case t1 of [] \<Rightarrow> t1 | c # u \<Rightarrow> if c = CHR ''/'' then u else t1)
                in case t2 of [] \<Rightarrow> None | c # v \<Rightarrow> if c = CHR ''>'' then Some v else None)
          else None
      | _ \<Rightarrow> None)"

definition matchTag :: "string \<Rightarrow> string option" where
  \<comment> \<open>A match of \<^verbatim>\<open>/<[^>]+>/\<close> at the start of the string: what follows the match.\<close>
  "matchTag s =
     (case s of
        [] \<Rightarrow> None
      | c0 # t \<Rightarrow>
          if c0 = CHR ''<''
          then (let body = takeWhile (\<lambda>c. c \<noteq> CHR ''>'') t;
                    after = dropWhile (\<lambda>c. c \<noteq> CHR ''>'') t
                in if body \<noteq> [] \<and> after \<noteq> [] then Some (tl after) else None)
          else None)"

lemma matchBr_shorter: "matchBr s = Some r \<Longrightarrow> length r < length s"
proof -
  have dw: "length (dropWhile isWhiteSpace t) \<le> length t" for t
    by (simp add: length_dropWhile_le)
  assume "matchBr s = Some r"
  then obtain c0 c1 c2 t where s: "s = c0 # c1 # c2 # t"
    by (auto simp: matchBr_def split: list.splits)
  with \<open>matchBr s = Some r\<close> show ?thesis
    using dw [of t]
    by (auto simp: matchBr_def Let_def split: list.splits if_splits)
qed

lemma matchTag_shorter: "matchTag s = Some r \<Longrightarrow> length r < length s"
proof -
  have dw: "length (dropWhile (\<lambda>c. c \<noteq> CHR ''>'') t) \<le> length t" for t
    by (simp add: length_dropWhile_le)
  assume "matchTag s = Some r"
  then show ?thesis
    using dw
    by (cases s) (auto simp: matchTag_def Let_def le_imp_less_Suc less_imp_diff_less
        split: if_splits)
qed

function replaceBr :: "string \<Rightarrow> string" where
  \<comment> \<open>\<^verbatim>\<open>s.replace(/<br\s*\/?>/gi, '\n')\<close>\<close>
  "replaceBr [] = []"
| "replaceBr (c # cs) =
     (case matchBr (c # cs) of
        Some rest \<Rightarrow> CHR 0x0A # replaceBr rest
      | None \<Rightarrow> c # replaceBr cs)"
  by pat_completeness auto
termination
  by (relation "measure length") (auto dest: matchBr_shorter)

function stripTags :: "string \<Rightarrow> string" where
  \<comment> \<open>\<^verbatim>\<open>s.replace(/<[^>]+>/g, '')\<close>\<close>
  "stripTags [] = []"
| "stripTags (c # cs) =
     (case matchTag (c # cs) of
        Some rest \<Rightarrow> stripTags rest
      | None \<Rightarrow> c # stripTags cs)"
  by pat_completeness auto
termination
  by (relation "measure length") (auto dest: matchTag_shorter)

section \<open>Numbers of the platform\<close>

text \<open>
  A JavaScript number: not-a-number, the two infinities, or a finite value. A finite
  value is kept as the exact rational it denotes; the rounding of a decimal literal to
  the nearest binary64 value, and with it overflow to an infinity, is not modelled.
\<close>

datatype jsnum = NaN | PosInfinity | NegInfinity | Finite rat

fun isNaN :: "jsnum \<Rightarrow> bool" where
  "isNaN NaN = True"
| "isNaN _ = False"


definition exponentPart :: "string \<Rightarrow> int" where
  \<comment> \<open>The value of an exponent part \<^verbatim>\<open>e\<close>, sign, digits at the start of the string; 0
      when the string does not start with a complete one.\<close>
  "exponentPart s =
     (case s of
        [] \<Rightarrow> 0
      | c # t \<Rightarrow>
          if c = CHR ''e'' \<or> c = CHR ''E''
          then (case t of
                  [] \<Rightarrow> 0
                | d # u \<Rightarrow>
                    if d = CHR ''-'' then
                      (if takeWhile isDigit u = [] then 0
                       else - int (digitsValue (takeWhile isDigit u)))
                    else if d = CHR ''+'' then int (digitsValue (takeWhile isDigit u))
                    else int (digitsValue (takeWhile isDigit t)))
          else 0)"

definition pow10 :: "int \<Rightarrow> rat" where
  "pow10 e = (if 0 \<le> e then 10 ^ nat e else 1 / 10 ^ nat (- e))"

definition parseFloat :: "string \<Rightarrow> jsnum" where
  \<comment> \<open>\<^verbatim>\<open>parseFloat\<close>: leading white space is skipped, then the longest prefix that is a
      decimal literal (a sign, then \<^verbatim>\<open>Infinity\<close> or digits with an optional fraction and
      an optional exponent) is read; no such prefix gives \<^verbatim>\<open>NaN\<close>.\<close>
  "parseFloat s =
     (let t = dropWhile isWhiteSpace s;
          neg = (t \<noteq> [] \<and> hd t = CHR ''-'');
          u = (if t \<noteq> [] \<and> (hd t = CHR ''-'' \<or> hd t = CHR ''+'') then tl t else t)
      in if prefix ''Infinity'' u then (if neg then NegInfinity else PosInfinity)
         else
           (let ip = takeWhile isDigit u;
                r1 = dropWhile isDigit u;
                dot = (r1 \<noteq> [] \<and> hd r1 = CHR ''.'');
                fp = (if dot then takeWhile isDigit (tl r1) else []);
                r2 = (if dot then dropWhile isDigit (tl r1) else r1)
            in if ip = [] \<and> fp = [] then NaN
               else Finite ((if neg then - 1 else 1) * of_nat (digitsValue (ip @ fp))
                            * pow10 (exponentPart r2 - int (length fp)))))"

definition parseFloatOpt :: "string option \<Rightarrow> jsnum" where
  \<comment> \<open>\<^verbatim>\<open>parseFloat(parts[k])\<close>: a missing element is \<^verbatim>\<open>undefined\<close>, which parses to
      \<^verbatim>\<open>NaN\<close>.\<close>
  "parseFloatOpt x = (case x of None \<Rightarrow> NaN | Some s \<Rightarrow> parseFloat s)"

section \<open>types.ts\<close>

datatype BreweryCategory = MYTHIC | GOLD | SILVER | COMMON | TAP_ROOM

datatype AliveStatus = Active | Inactive | Unknown

record Coordinates =
  lat :: jsnum
  lng :: jsnum

text \<open>
  The interface \<^verbatim>\<open>Brewery\<close>. A field declared with \<^verbatim>\<open>?\<close> is an option:
  \<^const>\<open>None\<close> is \<^verbatim>\<open>undefined\<close>. The field \<^verbatim>\<open>id\<close> is named \<open>id'\<close>.
\<close>

record Brewery =
  id' :: string
  name :: string
  description :: string
  category :: BreweryCategory
  coordinates :: Coordinates
  address :: "string option"
  website :: "string option"
  googleMapsUri :: "string option"
  aliveStatus :: "AliveStatus option"
  lastAliveCheck :: "string option"

section \<open>The document object model\<close>

text \<open>
  A node of a parsed document: an element with its tag name, its attributes and its
  children, or a text node (a CDATA section is a text node too). The document node is
  an element named \<open>#document\<close> whose child is the root element.
\<close>

datatype xml = Element string "(string \<times> string) list" "xml list" | Text string

fun childNodes :: "xml \<Rightarrow> xml list" where
  "childNodes (Element tg as cs) = cs"
| "childNodes (Text s) = []"

fun tagName :: "xml \<Rightarrow> string" where
  "tagName (Element tg as cs) = tg"
| "tagName (Text s) = []"

fun textContent :: "xml \<Rightarrow> string" where
  "textContent (Text s) = s"
| "textContent (Element tg as cs) = concat (map textContent cs)"

fun subtreeElements :: "xml \<Rightarrow> xml list" where
  \<comment> \<open>The elements of a subtree in document order, its root first.\<close>
  "subtreeElements (Text s) = []"
| "subtreeElements (Element tg as cs) = Element tg as cs # concat (map subtreeElements cs)"

definition getElementsByTagName :: "xml \<Rightarrow> string \<Rightarrow> xml list" where
  \<comment> \<open>The descendant elements with the tag name, in document order.\<close>
  "getElementsByTagName n tg =
     filter (\<lambda>e. tagName e = tg) (concat (map subtreeElements (childNodes n)))"

fun getAttribute :: "xml \<Rightarrow> string \<Rightarrow> string option" where
  "getAttribute (Element tg as cs) a = map_of as a"
| "getAttribute (Text s) a = None"

definition first :: "'a list \<Rightarrow> 'a option" where
  \<comment> \<open>\<^verbatim>\<open>xs[0]\<close>, which is \<^verbatim>\<open>undefined\<close> on an empty collection.\<close>
  "first xs = (case xs of [] \<Rightarrow> None | x # _ \<Rightarrow> Some x)"

section \<open>DOMParser.parseFromString\<close>

text \<open>
  The reading of a document text into a tree, for the part of XML that the export
  writes: a prolog of processing instructions and comments, elements with attributes,
  character data without references, and CDATA sections. Line ends are normalised
  first. A text with a character that XML forbids, with a reference (\<open>&\<close>), with a
  document type declaration, or that is not well formed gives the error document, which
  has no \<open>Folder\<close> and no \<open>Placemark\<close>.
\<close>

definition isXmlChar :: "char \<Rightarrow> bool" where
  \<comment> \<open>The characters below 256 that XML 1.0 allows in a document.\<close>
  "isXmlChar c = ((of_char c :: nat) \<in> {9, 10, 13} \<or> 32 \<le> (of_char c :: nat))"

definition isXmlSpace :: "char \<Rightarrow> bool" where
  "isXmlSpace c = ((of_char c :: nat) \<in> {9, 10, 13, 32})"

fun normalizeLineEnds :: "string \<Rightarrow> string" where
  \<comment> \<open>CR LF and a lone CR become LF.\<close>
  "normalizeLineEnds [] = []"
| "normalizeLineEnds [c] = (if c = CHR 0x0D then [CHR 0x0A] else [c])"
| "normalizeLineEnds (c # d # cs) =
     (if c = CHR 0x0D
      then (if d = CHR 0x0A then CHR 0x0A # normalizeLineEnds cs
            else CHR 0x0A # normalizeLineEnds (d # cs))
      else c # normalizeLineEnds (d # cs))"

definition isNameStartChar :: "char \<Rightarrow> bool" where
  "isNameStartChar c =
     (let n = (of_char c :: nat)
      in (65 \<le> n \<and> n \<le> 90) \<or> (97 \<le> n \<and> n \<le> 122) \<or> n = 58 \<or> n = 95
         \<or> (192 \<le> n \<and> n \<noteq> 215 \<and> n \<noteq> 247))"

definition isNameChar :: "char \<Rightarrow> bool" where
  "isNameChar c =
     (let n = (of_char c :: nat)
      in isNameStartChar c \<or> (48 \<le> n \<and> n \<le> 57) \<or> n = 45 \<or> n = 46 \<or> n = 183)"

definition isName :: "string \<Rightarrow> bool" where
  "isName s = (case s of [] \<Rightarrow> False | c # cs \<Rightarrow> isNameStartChar c \<and> list_all isNameChar cs)"

fun splitAt :: "string \<Rightarrow> string \<Rightarrow> (string \<times> string) option" where
  \<comment> \<open>The text before and the text after the first occurrence of a separator.\<close>
  "splitAt sep [] = (if sep = [] then Some ([], []) else None)"
| "splitAt sep (c # cs) =
     (if prefix sep (c # cs) then Some ([], drop (length sep) (c # cs))
      else (case splitAt sep cs of
              None \<Rightarrow> None
            | Some (a, r) \<Rightarrow> Some (c # a, r)))"

lemma splitAt_length: "splitAt sep s = Some (a, r) \<Longrightarrow> length r \<le> length s"
  by (induction s arbitrary: a) (auto split: if_splits option.splits)

datatype token =
    TOpen string "(string \<times> string) list"
  | TEmpty string "(string \<times> string) list"
  | TClose string
  | TText string

definition parseAttribute :: "string \<Rightarrow> ((string \<times> string) \<times> string) option" where
  \<comment> \<open>One attribute at the start of the string: name, \<open>=\<close>, quoted value. The result
      is the attribute, its value normalised, and the rest of the string.\<close>
  "parseAttribute s =
     (let nm = takeWhile isNameChar s;
          r1 = dropWhile isXmlSpace (dropWhile isNameChar s)
      in case r1 of
           [] \<Rightarrow> None
         | e # r2 \<Rightarrow>
             if e = CHR ''='' \<and> isName nm then
               (case dropWhile isXmlSpace r2 of
                  [] \<Rightarrow> None
                | q # r3 \<Rightarrow>
                    if q = CHR 0x22 \<or> q = CHR 0x27 then
                      (case splitAt [q] r3 of
                         None \<Rightarrow> None
                       | Some (v, r4) \<Rightarrow>
                           if CHR ''<'' \<in> set v \<or> CHR ''&'' \<in> set v then None
                           else Some ((nm, map (\<lambda>c. if isXmlSpace c then CHR '' '' else c) v), r4))
                    else None)
             else None)"

lemma parseAttribute_shorter:
  assumes "parseAttribute s = Some (a, r)"
  shows "length r < length s"
proof -
  let ?r1 = "dropWhile isXmlSpace (dropWhile isNameChar s)"
  from assms obtain e r2 where r1: "?r1 = e # r2"
    by (cases ?r1) (simp_all add: parseAttribute_def Let_def del: dropWhile_eq_Nil_conv)
  from assms r1 obtain q r3 where r3: "dropWhile isXmlSpace r2 = q # r3"
    by (cases "dropWhile isXmlSpace r2")
      (simp_all add: parseAttribute_def Let_def del: dropWhile_eq_Nil_conv split: if_splits)
  from assms r1 r3 obtain v where "splitAt [q] r3 = Some (v, r)"
    by (cases "splitAt [q] r3")
      (auto simp add: parseAttribute_def Let_def simp del: dropWhile_eq_Nil_conv
        split: if_splits)
  then have "length r \<le> length r3"
    by (rule splitAt_length)
  moreover have "length (q # r3) \<le> length r2"
    using length_dropWhile_le [of isXmlSpace r2] by (simp add: r3)
  moreover have "length (e # r2) \<le> length s"
    using length_dropWhile_le [of isXmlSpace "dropWhile isNameChar s"]
      length_dropWhile_le [of isNameChar s] by (simp add: r1)
  ultimately show ?thesis by simp
qed

function parseAttributes :: "string \<Rightarrow> ((string \<times> string) list \<times> bool) option" where
  \<comment> \<open>The attributes of a start tag after its name, and whether the tag ends with
      \<open>/\<close>. Attributes are separated from what precedes them by white space, and no
      name occurs twice.\<close>
  "parseAttributes s =
     (if dropWhile isXmlSpace s = [] then Some ([], False)
      else if dropWhile isXmlSpace s = ''/'' then Some ([], True)
      else if length (dropWhile isXmlSpace s) = length s then None
      else (case parseAttribute (dropWhile isXmlSpace s) of
              None \<Rightarrow> None
            | Some (a, rest) \<Rightarrow>
                (case parseAttributes rest of
                   None \<Rightarrow> None
                 | Some (as, e) \<Rightarrow>
                     if fst a \<in> set (map fst as) then None else Some (a # as, e))))"
  by pat_completeness auto
termination
  apply (relation "measure length")
   apply simp
  subgoal for s x a rest
    using parseAttribute_shorter [of "dropWhile isXmlSpace s" a rest]
      length_dropWhile_le [of isXmlSpace s]
    by simp
  done

definition parseTag :: "string \<Rightarrow> token option" where
  \<comment> \<open>The token of a tag, from the text between \<open><\<close> and \<open>>\<close>.\<close>
  "parseTag t =
     (case t of
        [] \<Rightarrow> None
      | c # cs \<Rightarrow>
          if c = CHR ''/'' then
            (let nm = takeWhile isNameChar cs
             in if isName nm \<and> list_all isXmlSpace (dropWhile isNameChar cs)
                then Some (TClose nm) else None)
          else
            (let nm = takeWhile isNameChar t
             in if isName nm then
                  (case parseAttributes (dropWhile isNameChar t) of
                     None \<Rightarrow> None
                   | Some (as, e) \<Rightarrow> Some (if e then TEmpty nm as else TOpen nm as))
                else None))"

function tokenize :: "string \<Rightarrow> token list option" where
  "tokenize [] = Some []"
| "tokenize (c # cs) =
     (if c = CHR ''<'' then
        (if prefix ''![CDATA['' cs then
           (case splitAt '']]>'' (drop 8 cs) of
              None \<Rightarrow> None
            | Some (body, rest) \<Rightarrow> map_option (Cons (TText body)) (tokenize rest))
         else if prefix ''!--'' cs then
           (case splitAt ''-->'' (drop 3 cs) of
              None \<Rightarrow> None
            | Some (body, rest) \<Rightarrow> tokenize rest)
         else if prefix ''?'' cs then
           (case splitAt ''?>'' (drop 1 cs) of
              None \<Rightarrow> None
            | Some (body, rest) \<Rightarrow> tokenize rest)
         else
           (case splitAt ''>'' cs of
              None \<Rightarrow> None
            | Some (tag, rest) \<Rightarrow>
                (case parseTag tag of
                   None \<Rightarrow> None
                 | Some tok \<Rightarrow> map_option (Cons tok) (tokenize rest))))
      else if CHR ''&'' \<in> set (takeWhile (\<lambda>x. x \<noteq> CHR ''<'') (c # cs)) then None
      else map_option (Cons (TText (takeWhile (\<lambda>x. x \<noteq> CHR ''<'') (c # cs))))
             (tokenize (dropWhile (\<lambda>x. x \<noteq> CHR ''<'') cs)))"
  by pat_completeness auto
termination
  apply (relation "measure length")
       apply simp
  subgoal for c cs x2 x y
    using splitAt_length [of "'']]>''" "drop 8 cs" x y] by auto
  subgoal for c cs x2 x y
    using splitAt_length [of "''-->''" "drop 3 cs" x y] by auto
  subgoal for c cs x2 x y
    using splitAt_length [of "''?>''" "drop 1 cs" x y] by auto
  subgoal for c cs x2 x y
    using splitAt_length [of "''>''" cs x y] by auto
  subgoal for c cs
    using length_dropWhile_le [of "\<lambda>x. x \<noteq> CHR ''<''" cs] by simp
  done

text \<open>
  The tree is built on a stack of open elements, each with its tag name, its attributes
  and its children so far, last child first; the bottom of the stack is the document
  node.
\<close>

fun build :: "token list \<Rightarrow> (string \<times> (string \<times> string) list \<times> xml list) list \<Rightarrow> xml option" where
  "build [] stack =
     (case stack of
        [(tg, as, cs)] \<Rightarrow> Some (Element tg as (rev cs))
      | _ \<Rightarrow> None)"
| "build (TText s # ts) stack =
     (case stack of
        [] \<Rightarrow> None
      | (tg, as, cs) # below \<Rightarrow> build ts ((tg, as, Text s # cs) # below))"
| "build (TOpen n a # ts) stack = build ts ((n, a, []) # stack)"
| "build (TEmpty n a # ts) stack =
     (case stack of
        [] \<Rightarrow> None
      | (tg, as, cs) # below \<Rightarrow> build ts ((tg, as, Element n a [] # cs) # below))"
| "build (TClose n # ts) stack =
     (case stack of
        (tg, as, cs) # (tg', as', cs') # below \<Rightarrow>
          if n = tg then build ts ((tg', as', Element tg as (rev cs) # cs') # below)
          else None
      | _ \<Rightarrow> None)"

definition isElement :: "xml \<Rightarrow> bool" where
  "isElement n = (case n of Element tg as cs \<Rightarrow> True | Text s \<Rightarrow> False)"

definition errorDocument :: xml where
  "errorDocument = Element ''#document'' [] [Element ''parsererror'' [] []]"

definition parseFromString :: "string \<Rightarrow> xml" where
  \<comment> \<open>The document node of a text. Outside the root element only white space may
      stand, and it leaves no node.\<close>
  "parseFromString s =
     (if \<not> list_all isXmlChar s then errorDocument
      else (case tokenize (normalizeLineEnds s) of
              None \<Rightarrow> errorDocument
            | Some ts \<Rightarrow>
                (case build ts [(''#document'', [], [])] of
                   None \<Rightarrow> errorDocument
                 | Some d \<Rightarrow>
                     if list_all (\<lambda>n. isElement n \<or> list_all isXmlSpace (textContent n))
                          (childNodes d)
                        \<and> length (filter isElement (childNodes d)) = 1
                     then Element ''#document'' [] (filter isElement (childNodes d))
                     else errorDocument)))"

section \<open>App.tsx: the two collections\<close>

text \<open>
  The component state that the handlers read and write: the committed collection
  \<^verbatim>\<open>breweries\<close>, the found-set \<^verbatim>\<open>foundBreweries\<close>, the selection, and the record
  and flag of the edit dialog.
\<close>

record AppState =
  breweries :: "Brewery list"
  foundBreweries :: "Brewery list"
  selectedBreweryId :: "string option"
  editingBrewery :: "Brewery option"
  editModalOpen :: bool

subsection \<open>The import merge (the state update at the end of parseKML)\<close>

definition existingNames :: "Brewery list \<Rightarrow> string set" where
  \<comment> \<open>\<^verbatim>\<open>new Set(prev.map(b => b.name.toLowerCase()))\<close>\<close>
  "existingNames prev = set (map (\<lambda>b. toLowerCase (name b)) prev)"

definition uniqueNew :: "Brewery list \<Rightarrow> Brewery list \<Rightarrow> Brewery list" where
  \<comment> \<open>\<^verbatim>\<open>newBreweries.filter(b => !existingNames.has(b.name.toLowerCase()))\<close>\<close>
  "uniqueNew prev newBreweries =
     filter (\<lambda>b. toLowerCase (name b) \<notin> existingNames prev) newBreweries"

definition mergeImported :: "Brewery list \<Rightarrow> Brewery list \<Rightarrow> Brewery list" where
  \<comment> \<open>\<^verbatim>\<open>setBreweries(prev => ... return [...prev, ...uniqueNew])\<close>\<close>
  "mergeImported prev newBreweries = prev @ uniqueNew prev newBreweries"


datatype alert = ImportedAlert nat | NoValidLocationsAlert

definition parseKML_commit :: "Brewery list \<Rightarrow> bool \<Rightarrow> AppState \<Rightarrow> AppState \<times> alert option" where
  \<comment> \<open>The end of \<^verbatim>\<open>parseKML\<close>, once \<^verbatim>\<open>newBreweries\<close> is decoded: the merge, and the
      message shown unless \<^verbatim>\<open>silent\<close>. The message carries \<^verbatim>\<open>newBreweries.length\<close>.\<close>
  "parseKML_commit newBreweries silent st =
     (if length newBreweries > 0
      then (st\<lparr>breweries := mergeImported (breweries st) newBreweries\<rparr>,
            if \<not> silent then Some (ImportedAlert (length newBreweries)) else None)
      else (st, if \<not> silent then Some NoValidLocationsAlert else None))"

subsection \<open>The handlers\<close>


definition handleAddToMap :: "Brewery \<Rightarrow> AppState \<Rightarrow> AppState" where
  "handleAddToMap brewery st =
     st\<lparr>breweries := breweries st @ [brewery],
        foundBreweries := filter (\<lambda>b. id' b \<noteq> id' brewery) (foundBreweries st)\<rparr>"







definition newBrewery :: "string \<Rightarrow> Brewery" where
  \<comment> \<open>The record of the add button; its argument is the result of \<^verbatim>\<open>generateId()\<close>.\<close>
  "newBrewery i =
     \<lparr>id' = i, name = ''New Location'', description = ''Description here'',
      category = COMMON,
      coordinates = \<lparr>lat = Finite (40.4168), lng = Finite (-3.7038)\<rparr>,
      address = Some [], website = None, googleMapsUri = None,
      aliveStatus = None, lastAliveCheck = None\<rparr>"


subsection \<open>The health check\<close>

definition healthUpdate :: "string \<Rightarrow> AliveStatus \<Rightarrow> string \<Rightarrow> Brewery list \<Rightarrow> Brewery list" where
  \<comment> \<open>\<^verbatim>\<open>prev.map(b => b.id === id ? { ...b, aliveStatus: status, lastAliveCheck: date } : b)\<close>\<close>
  "healthUpdate i status date prev =
     map (\<lambda>b. if id' b = i then b\<lparr>aliveStatus := Some status, lastAliveCheck := Some date\<rparr>
                else b) prev"

definition findForCheck :: "string \<Rightarrow> AppState \<Rightarrow> (Brewery \<times> bool) option" where
  \<comment> \<open>The start of \<^verbatim>\<open>handleCheckStatus\<close>: the record, and \<^verbatim>\<open>isFoundList\<close>.\<close>
  "findForCheck i st =
     (case find (\<lambda>b. id' b = i) (breweries st) of
        Some b \<Rightarrow> Some (b, False)
      | None \<Rightarrow>
          (case find (\<lambda>b. id' b = i) (foundBreweries st) of
             Some b \<Rightarrow> Some (b, True)
           | None \<Rightarrow> None))"

definition finishCheck :: "bool \<Rightarrow> string \<Rightarrow> AliveStatus \<Rightarrow> string \<Rightarrow> AppState \<Rightarrow> AppState" where
  \<comment> \<open>The state update of \<^verbatim>\<open>handleCheckStatus\<close> after the awaited answer.\<close>
  "finishCheck isFoundList i status date st =
     (if isFoundList
      then st\<lparr>foundBreweries := healthUpdate i status date (foundBreweries st)\<rparr>
      else st\<lparr>breweries := healthUpdate i status date (breweries st)\<rparr>)"

definition handleCheckStatus ::
  "(string \<Rightarrow> AliveStatus \<times> string) \<Rightarrow> string \<Rightarrow> AppState \<Rightarrow> AppState" where
  \<comment> \<open>The first argument stands for \<^verbatim>\<open>checkBreweryHealth\<close>: the status and date it
      answers for a name. No other event is taken between the lookup and the update.\<close>
  "handleCheckStatus checkBreweryHealth i st =
     (case findForCheck i st of
        None \<Rightarrow> st
      | Some (brewery, isFoundList) \<Rightarrow>
          (case checkBreweryHealth (name brewery) of
             (status, date) \<Rightarrow> finishCheck isFoundList i status date st))"

section \<open>App.tsx: parseKML\<close>

definition getCategoryFromFolder :: "string \<Rightarrow> BreweryCategory" where
  "getCategoryFromFolder nm =
     (let n = trim (toLowerCase nm)
      in if includes' n (''m'' @ [CHR 0xED] @ ''tico'') \<or> includes' n ''mitico'' then MYTHIC
         else if includes' n ''oro'' then GOLD
         else if includes' n ''plata'' then SILVER
         else if includes' n ''tap room'' \<or> includes' n ''taproom'' then TAP_ROOM
         else COMMON)"

text \<open>
  The four variables that the three strategies of \<^verbatim>\<open>parsePlacemark\<close> fill:
  \<^verbatim>\<open>website\<close>, \<^verbatim>\<open>googleMapsUri\<close>, \<^verbatim>\<open>address\<close> and \<^verbatim>\<open>aliveStatus\<close>.
\<close>

record extracted =
  x_website :: string
  x_googleMapsUri :: string
  x_address :: string
  x_aliveStatus :: AliveStatus

definition setStatus :: "string \<Rightarrow> extracted \<Rightarrow> extracted" where
  \<comment> \<open>\<^verbatim>\<open>if (value === 'active' || value === 'inactive' || value === 'unknown')
      aliveStatus = value\<close>\<close>
  "setStatus v x =
     (if v = ''active'' then x\<lparr>x_aliveStatus := Active\<rparr>
      else if v = ''inactive'' then x\<lparr>x_aliveStatus := Inactive\<rparr>
      else if v = ''unknown'' then x\<lparr>x_aliveStatus := Unknown\<rparr>
      else x)"

definition mapsAliases :: "string list" where
  "mapsAliases =
     [''googlemapsuri'', ''google_maps_uri'', ''maps_link'', ''map_link'', ''google_maps'']"

definition addressAliases :: "string list" where
  "addressAliases =
     [''address'', ''direccion'', ''direcci'' @ [CHR 0xF3] @ ''n'', ''location'']"

definition statusAliases :: "string list" where
  "statusAliases = [''alivestatus'', ''status'', ''active'']"

definition dataStep :: "extracted \<Rightarrow> xml \<Rightarrow> extracted" where
  \<comment> \<open>One round of the loop over the \<^verbatim>\<open>Data\<close> elements (strategy 1).\<close>
  "dataStep x dataNode =
     (let nameAttr = map_option toLowerCase (getAttribute dataNode ''name'');
          val = map_option (\<lambda>v. trim (textContent v))
                  (first (getElementsByTagName dataNode ''value''))
      in case nameAttr of
           None \<Rightarrow> x
         | Some n \<Rightarrow>
             (case val of
                None \<Rightarrow> x
              | Some v \<Rightarrow>
                  if n \<noteq> [] \<and> v \<noteq> [] then
                    (if n \<in> set [''website'', ''web'', ''url'', ''site'', ''gx_media_links'']
                     then x\<lparr>x_website := (case split (CHR '' '') v of [] \<Rightarrow> [] | w # _ \<Rightarrow> w)\<rparr>
                     else if n \<in> set mapsAliases then x\<lparr>x_googleMapsUri := v\<rparr>
                     else if n \<in> set addressAliases then x\<lparr>x_address := v\<rparr>
                     else if n \<in> set statusAliases then setStatus v x
                     else x)
                  else x))"

definition simpleDataStep :: "extracted \<Rightarrow> xml \<Rightarrow> extracted" where
  \<comment> \<open>One round of the loop over the \<^verbatim>\<open>SimpleData\<close> elements (strategy 2).\<close>
  "simpleDataStep x dataNode =
     (let nameAttr = map_option toLowerCase (getAttribute dataNode ''name'');
          v = trim (textContent dataNode)
      in case nameAttr of
           None \<Rightarrow> x
         | Some n \<Rightarrow>
             if n \<noteq> [] \<and> v \<noteq> [] then
               (if n \<in> set [''website'', ''web'', ''url'', ''site'']
                then x\<lparr>x_website := v\<rparr>
                else if n \<in> set mapsAliases then x\<lparr>x_googleMapsUri := v\<rparr>
                else if n \<in> set addressAliases then x\<lparr>x_address := v\<rparr>
                else if n \<in> set statusAliases then setStatus v x
                else x)
             else x)"

definition linkStep :: "extracted \<Rightarrow> string option \<Rightarrow> extracted" where
  \<comment> \<open>One round of the loop over the anchors of the description (strategy 3); the
      argument is the anchor's \<^verbatim>\<open>getAttribute('href')\<close>.\<close>
  "linkStep x href =
     (case href of
        None \<Rightarrow> x
      | Some h \<Rightarrow>
          if h \<noteq> [] then
            (if includes' h ''google.com/maps'' \<or> includes' h ''maps.google.com''
                \<or> includes' h ''goo.gl/maps''
             then (if x_googleMapsUri x = [] then x\<lparr>x_googleMapsUri := h\<rparr> else x)
             else (if x_website x = [] then x\<lparr>x_website := h\<rparr> else x))
          else x)"

definition cleanDesc :: "string \<Rightarrow> string" where
  "cleanDesc descr = trim (stripTags (replaceBr descr))"

definition placemarkName :: "xml \<Rightarrow> string" where
  \<comment> \<open>\<^verbatim>\<open>p.getElementsByTagName("name")[0]?.textContent || "Unknown Location"\<close>\<close>
  "placemarkName p =
     (case first (getElementsByTagName p ''name'') of
        None \<Rightarrow> ''Unknown Location''
      | Some e \<Rightarrow> if textContent e \<noteq> [] then textContent e else ''Unknown Location'')"

definition placemarkDescription :: "xml \<Rightarrow> string" where
  \<comment> \<open>\<^verbatim>\<open>p.getElementsByTagName("description")[0]?.textContent || ""\<close>\<close>
  "placemarkDescription p =
     (case first (getElementsByTagName p ''description'') of
        None \<Rightarrow> []
      | Some e \<Rightarrow> textContent e)"

definition extractFields :: "(string \<Rightarrow> string option list) \<Rightarrow> xml \<Rightarrow> extracted" where
  \<comment> \<open>The three strategies in turn. \<open>anchorHrefs\<close> stands for the browser's HTML parser:
      the \<^verbatim>\<open>href\<close> attribute of each anchor of a fragment, in document order.\<close>
  "extractFields anchorHrefs p =
     (let x0 = \<lparr>x_website = [], x_googleMapsUri = [], x_address = [],
                x_aliveStatus = Unknown\<rparr>;
          x1 = foldl dataStep x0 (getElementsByTagName p ''Data'');
          x2 = foldl simpleDataStep x1 (getElementsByTagName p ''SimpleData'')
      in if x_website x2 = [] \<or> x_googleMapsUri x2 = []
         then foldl linkStep x2 (anchorHrefs (placemarkDescription p)) else x2)"

definition coordsRaw :: "xml \<Rightarrow> string option" where
  \<comment> \<open>The trimmed text of the first \<^verbatim>\<open>coordinates\<close> element of the first \<^verbatim>\<open>Point\<close>.\<close>
  "coordsRaw p =
     (let point = first (getElementsByTagName p ''Point'');
          coordinatesTag = (case point of
                              None \<Rightarrow> None
                            | Some pt \<Rightarrow> first (getElementsByTagName pt ''coordinates''))
      in map_option (\<lambda>e. trim (textContent e)) coordinatesTag)"

definition decodedBrewery ::
  "string \<Rightarrow> xml \<Rightarrow> BreweryCategory \<Rightarrow> extracted \<Rightarrow> jsnum \<Rightarrow> jsnum \<Rightarrow> Brewery" where
  \<comment> \<open>The object that \<^verbatim>\<open>parsePlacemark\<close> returns for valid coordinates.\<close>
  "decodedBrewery newId p defaultCategory x lat' lng' =
     \<lparr>id' = newId, name = placemarkName p,
      description = cleanDesc (placemarkDescription p),
      category = defaultCategory,
      coordinates = \<lparr>lat = lat', lng = lng'\<rparr>,
      address = Some (x_address x),
      website = (if x_website x \<noteq> [] then Some (x_website x) else None),
      googleMapsUri = (if x_googleMapsUri x \<noteq> [] then Some (x_googleMapsUri x) else None),
      aliveStatus = Some (x_aliveStatus x),
      lastAliveCheck = None\<rparr>"

definition parsePlacemark ::
  "(string \<Rightarrow> string option list) \<Rightarrow> string \<Rightarrow> xml \<Rightarrow> BreweryCategory \<Rightarrow> Brewery option" where
  \<comment> \<open>\<open>newId\<close> is the result that \<^verbatim>\<open>generateId()\<close> has when the record is built.
      \<^const>\<open>None\<close> is \<^verbatim>\<open>null\<close>.\<close>
  "parsePlacemark anchorHrefs newId p defaultCategory =
     (case coordsRaw p of
        None \<Rightarrow> None
      | Some raw \<Rightarrow>
          if raw \<noteq> [] then
            (let parts = split (CHR '','') raw;
                 lng' = parseFloatOpt (first parts);
                 lat' = parseFloatOpt (first (drop 1 parts))
             in if \<not> isNaN lat' \<and> \<not> isNaN lng' then
                  Some (decodedBrewery newId p defaultCategory
                          (extractFields anchorHrefs p) lat' lng')
                else None)
          else None)"

fun parsePlacemarks ::
  "(string \<Rightarrow> string option list) \<Rightarrow> (nat \<Rightarrow> string) \<Rightarrow> BreweryCategory \<Rightarrow> xml list \<Rightarrow>
   Brewery list \<Rightarrow> Brewery list" where
  \<comment> \<open>The loop over a collection of placemarks, pushing onto \<^verbatim>\<open>newBreweries\<close>.
      \<^verbatim>\<open>generateId()\<close> runs once for every record pushed, so the record pushed onto a
      list of length \<open>k\<close> carries the identifier \<open>generateId k\<close>.\<close>
  "parsePlacemarks anchorHrefs generateId cat [] newBreweries = newBreweries"
| "parsePlacemarks anchorHrefs generateId cat (p # ps) newBreweries =
     (case parsePlacemark anchorHrefs (generateId (length newBreweries)) p cat of
        Some b \<Rightarrow> parsePlacemarks anchorHrefs generateId cat ps (newBreweries @ [b])
      | None \<Rightarrow> parsePlacemarks anchorHrefs generateId cat ps newBreweries)"

fun foldersLoop ::
  "(string \<Rightarrow> string option list) \<Rightarrow> (nat \<Rightarrow> string) \<Rightarrow> xml list \<Rightarrow>
   Brewery list \<times> bool \<Rightarrow> Brewery list \<times> bool" where
  \<comment> \<open>The loop over the \<^verbatim>\<open>Folder\<close> elements; the state is \<^verbatim>\<open>newBreweries\<close> and
      \<^verbatim>\<open>foundInFolders\<close>.\<close>
  "foldersLoop anchorHrefs generateId [] s = s"
| "foldersLoop anchorHrefs generateId (folder # folders) (newBreweries, foundInFolders) =
     (let folderName = (case first (getElementsByTagName folder ''name'') of
                          None \<Rightarrow> []
                        | Some e \<Rightarrow> textContent e);
          cat = getCategoryFromFolder folderName;
          placemarks = getElementsByTagName folder ''Placemark''
      in if length placemarks > 0
         then foldersLoop anchorHrefs generateId folders
                (parsePlacemarks anchorHrefs generateId cat placemarks newBreweries, True)
         else foldersLoop anchorHrefs generateId folders (newBreweries, foundInFolders))"

definition decodeKML ::
  "(string \<Rightarrow> string option list) \<Rightarrow> (nat \<Rightarrow> string) \<Rightarrow> xml \<Rightarrow> Brewery list" where
  \<comment> \<open>\<^verbatim>\<open>parseKML\<close> from the parsed document to the final \<^verbatim>\<open>newBreweries\<close>.\<close>
  "decodeKML anchorHrefs generateId xmlDoc =
     (case foldersLoop anchorHrefs generateId (getElementsByTagName xmlDoc ''Folder'')
             ([], False) of
        (newBreweries, foundInFolders) \<Rightarrow>
          if \<not> foundInFolders
          then parsePlacemarks anchorHrefs generateId COMMON
                 (getElementsByTagName xmlDoc ''Placemark'') newBreweries
          else newBreweries)"

section \<open>App.tsx: exportKML\<close>

definition categoryLabel :: "BreweryCategory \<Rightarrow> string" where
  \<comment> \<open>The string values of the enum \<^verbatim>\<open>BreweryCategory\<close>.\<close>
  "categoryLabel c =
     (case c of
        MYTHIC \<Rightarrow> ''L'' @ [CHR 0xFA] @ ''pulo M'' @ [CHR 0xED] @ ''tico''
      | GOLD \<Rightarrow> ''L'' @ [CHR 0xFA] @ ''pulo de Oro''
      | SILVER \<Rightarrow> ''L'' @ [CHR 0xFA] @ ''pulo de Plata''
      | COMMON \<Rightarrow> ''L'' @ [CHR 0xFA] @ ''pulo Com'' @ [CHR 0xFA] @ ''n''
      | TAP_ROOM \<Rightarrow> ''Tap Room'')"

definition statusLabel :: "AliveStatus \<Rightarrow> string" where
  "statusLabel s =
     (case s of Active \<Rightarrow> ''active'' | Inactive \<Rightarrow> ''inactive'' | Unknown \<Rightarrow> ''unknown'')"

definition cdata :: "string \<Rightarrow> string" where
  "cdata s = ''<![CDATA['' @ s @ '']]>''"

definition dataElement :: "string \<Rightarrow> string \<Rightarrow> string" where
  \<comment> \<open>\<^verbatim>\<open><Data name="..."><value><![CDATA[...]]></value></Data>\<close>\<close>
  "dataElement nm v =
     ''<Data name='' @ [CHR 0x22] @ nm @ [CHR 0x22] @ ''><value>'' @ cdata v
       @ ''</value></Data>''"

definition optionalData :: "string \<Rightarrow> string option \<Rightarrow> string" where
  \<comment> \<open>\<^verbatim>\<open>${b.f ? `<Data ...>` : ''}\<close>: an absent or empty field writes nothing.\<close>
  "optionalData nm f =
     (case f of None \<Rightarrow> [] | Some v \<Rightarrow> if v \<noteq> [] then dataElement nm v else [])"

definition placemarkKML :: "(jsnum \<Rightarrow> string) \<Rightarrow> Brewery \<Rightarrow> string" where
  \<comment> \<open>\<open>numToString\<close> stands for the conversion of a number to a string in a template.\<close>
  "placemarkKML numToString b =
     ''      <Placemark>'' @ [CHR 0x0A]
     @ ''        <name>'' @ cdata (name b) @ ''</name>'' @ [CHR 0x0A]
     @ ''        <description>'' @ cdata (description b) @ ''</description>'' @ [CHR 0x0A]
     @ ''        <ExtendedData>'' @ [CHR 0x0A]
     @ ''          '' @ optionalData ''address'' (address b) @ [CHR 0x0A]
     @ ''          '' @ optionalData ''website'' (website b) @ [CHR 0x0A]
     @ ''          '' @ optionalData ''googleMapsUri'' (googleMapsUri b) @ [CHR 0x0A]
     @ ''          '' @ optionalData ''aliveStatus'' (map_option statusLabel (aliveStatus b))
     @ [CHR 0x0A]
     @ ''        </ExtendedData>'' @ [CHR 0x0A]
     @ ''        <Point>'' @ [CHR 0x0A]
     @ ''          <coordinates>'' @ numToString (lng (coordinates b)) @ '',''
     @ numToString (lat (coordinates b)) @ '',0</coordinates>'' @ [CHR 0x0A]
     @ ''        </Point>'' @ [CHR 0x0A]
     @ ''      </Placemark>'' @ [CHR 0x0A]"

definition folderKML :: "(jsnum \<Rightarrow> string) \<Rightarrow> Brewery list \<Rightarrow> BreweryCategory \<Rightarrow> string" where
  "folderKML numToString bs cat =
     (let categoryBreweries = filter (\<lambda>b. category b = cat) bs
      in if length categoryBreweries = 0 then []
         else ''    <Folder>'' @ [CHR 0x0A]
              @ ''      <name>'' @ categoryLabel cat @ ''</name>'' @ [CHR 0x0A]
              @ concat (map (placemarkKML numToString) categoryBreweries)
              @ ''    </Folder>'' @ [CHR 0x0A])"

definition exportKML :: "(jsnum \<Rightarrow> string) \<Rightarrow> Brewery list \<Rightarrow> string" where
  \<comment> \<open>The text \<^verbatim>\<open>kml\<close> that \<^verbatim>\<open>exportKML\<close> hands to the download.\<close>
  "exportKML numToString bs =
     ''<?xml version='' @ [CHR 0x22] @ ''1.0'' @ [CHR 0x22] @ '' encoding='' @ [CHR 0x22]
     @ ''UTF-8'' @ [CHR 0x22] @ ''?>'' @ [CHR 0x0A]
     @ ''<kml xmlns='' @ [CHR 0x22] @ ''http://www.opengis.net/kml/2.2'' @ [CHR 0x22] @ ''>''
     @ [CHR 0x0A]
     @ ''  <Document>'' @ [CHR 0x0A]
     @ ''    <name>Craft Beer Map Spain</name>'' @ [CHR 0x0A]
     @ concat (map (folderKML numToString bs) [MYTHIC, GOLD, SILVER, COMMON, TAP_ROOM])
     @ ''  </Document>'' @ [CHR 0x0A]
     @ ''</kml>''"

section \<open>App.tsx: parseKML, from the text to the state\<close>

definition parseKML ::
  "(string \<Rightarrow> string option list) \<Rightarrow> (nat \<Rightarrow> string) \<Rightarrow> string \<Rightarrow> bool \<Rightarrow> AppState \<Rightarrow>
   AppState \<times> alert option" where
  "parseKML anchorHrefs generateId xmlString silent st =
     parseKML_commit (decodeKML anchorHrefs generateId (parseFromString xmlString)) silent st"

section \<open>EditModal.tsx\<close>







section \<open>The application as a transition system\<close>


record platform =
  anchorHrefs :: "string \<Rightarrow> string option list"
  generateId :: "nat \<Rightarrow> string"
  checkBreweryHealth :: "string \<Rightarrow> AliveStatus \<times> string"




definition namesUnique :: "Brewery list \<Rightarrow> bool" where
  \<comment> \<open>No two records have names that are equal when lower-cased.\<close>
  "namesUnique bs = distinct (map (\<lambda>b. toLowerCase (name b)) bs)"

section \<open>Sample data\<close>

text \<open>The inputs on which the properties below are instantiated.\<close>

definition noAnchors :: "string \<Rightarrow> string option list" where
  \<comment> \<open>The anchors of a description without markup.\<close>
  "noAnchors d = []"

definition sampleId :: "nat \<Rightarrow> string" where
  \<comment> \<open>A supply of pairwise different identifiers.\<close>
  "sampleId k = replicate (Suc k) (CHR ''i'')"

definition placemarkElement :: "string \<Rightarrow> string \<Rightarrow> xml" where
  \<comment> \<open>A placemark with a name and a point.\<close>
  "placemarkElement nm coords =
     Element ''Placemark'' []
       [Element ''name'' [] [Text nm],
        Element ''Point'' [] [Element ''coordinates'' [] [Text coords]]]"

definition documentOf :: "xml list \<Rightarrow> xml" where
  \<comment> \<open>A document without folders around the given placemarks.\<close>
  "documentOf ps =
     Element ''#document'' [] [Element ''kml'' [] [Element ''Document'' [] ps]]"

definition sampleState :: AppState where
  \<comment> \<open>A state with two committed records and one found record.\<close>
  "sampleState =
     \<lparr>breweries = [newBrewery ''a'', newBrewery ''b''], foundBreweries = [newBrewery ''c''],
      selectedBreweryId = None, editingBrewery = None, editModalOpen = False\<rparr>"

definition sampleNumToString :: "jsnum \<Rightarrow> string" where
  \<comment> \<open>The conversion of a number to a string on the two coordinates of the sample
      records, which print as \<open>-3.7\<close> and \<open>40.1\<close>; no other value is converted below.\<close>
  "sampleNumToString x =
     (if x = Finite (- (37 / 10)) then ''-3.7'' else if x = Finite (401 / 10) then ''40.1''
      else ''NaN'')"

definition sampleVenue :: Brewery where
  "sampleVenue =
     \<lparr>id' = ''x1'', name = ''Row 44'', description = ''Craft beer bar'', category = GOLD,
      coordinates = \<lparr>lat = Finite (401 / 10), lng = Finite (- (37 / 10))\<rparr>,
      address = Some ''Calle Mayor 1'', website = Some ''https://row44.example'',
      googleMapsUri = Some ''https://maps.google.com/?q=1'',
      aliveStatus = Some Active, lastAliveCheck = Some ''2026-01-01''\<rparr>"

definition spacedVenue :: Brewery where
  "spacedVenue =
     \<lparr>id' = ''x2'', name = ''Row 44'', description = ''Craft beer bar'', category = GOLD,
      coordinates = \<lparr>lat = Finite (401 / 10), lng = Finite (- (37 / 10))\<rparr>,
      address = Some ''Calle Mayor 1 '', website = Some ''https://row44.example/our beers'',
      googleMapsUri = Some ''https://maps.google.com/?q=1'',
      aliveStatus = Some Active, lastAliveCheck = None\<rparr>"

definition importText :: string where
  \<comment> \<open>The text of a file with two placemarks, \<open>ROW 44\<close> and \<open>New Place\<close>.\<close>
  "importText =
     ''<kml><Document>''
     @ ''<Placemark><name>ROW 44</name>''
     @ ''<Point><coordinates>-3.7,40.1</coordinates></Point></Placemark>''
     @ ''<Placemark><name>New Place</name>''
     @ ''<Point><coordinates>-3.7,40.1</coordinates></Point></Placemark>''
     @ ''</Document></kml>''"

definition rowState :: AppState where
  \<comment> \<open>A state whose committed collection is one record named \<open>Row 44\<close>.\<close>
  "rowState =
     \<lparr>breweries = [(newBrewery ''a'')\<lparr>name := ''Row 44''\<rparr>], foundBreweries = [],
      selectedBreweryId = None, editingBrewery = None, editModalOpen = False\<rparr>"

definition importedRecord :: "string \<Rightarrow> string \<Rightarrow> Brewery" where
  \<comment> \<open>The record decoded from a placemark of \<^const>\<open>importText\<close>.\<close>
  "importedRecord i nm =
     \<lparr>id' = i, name = nm, description = [], category = COMMON,
      coordinates = \<lparr>lat = Finite (401 / 10), lng = Finite (- (37 / 10))\<rparr>,
      address = Some [], website = None, googleMapsUri = None,
      aliveStatus = Some Unknown, lastAliveCheck = None\<rparr>"



section \<open>Conditions on texts\<close>

text \<open>
  The texts that the export and the import carry through unchanged: a text is safe in a
  CDATA section when it has only characters that XML allows, no carriage return (which
  the parser would turn into a line feed) and no end mark of a CDATA section; the text
  of a number is safe in character data and splits at commas when it is not empty and
  has no markup character, comma or white space.
\<close>

definition cdataSafe :: "string \<Rightarrow> bool" where
  "cdataSafe s = (list_all isXmlChar s \<and> CHR 0x0D \<notin> set s \<and> \<not> includes' s '']]>'')"

definition numberText :: "string \<Rightarrow> bool" where
  "numberText s =
     (s \<noteq> [] \<and> list_all (\<lambda>c. isXmlChar c \<and> \<not> isWhiteSpace c
        \<and> c \<notin> set [CHR ''<'', CHR ''&'', CHR '','', CHR 0x0D]) s)"

definition firstWord :: "string \<Rightarrow> string" where
  \<comment> \<open>\<^verbatim>\<open>s.split(' ')[0]\<close>\<close>
  "firstWord s = (case split (CHR '' '') s of [] \<Rightarrow> [] | x # _ \<Rightarrow> x)"


section \<open>The document of an export with one record\<close>

text \<open>
  The tokens and the tree of the text that \<^const>\<open>exportKML\<close> writes for one record with
  all four optional fields, as functions of the texts it carries.
\<close>

definition exportedTokens ::
  "string \<Rightarrow> string \<Rightarrow> string \<Rightarrow> string \<Rightarrow> string \<Rightarrow> string \<Rightarrow> string \<Rightarrow> string \<Rightarrow> token list" where
  "exportedTokens label nm d a w m s c =
     [TText [CHR 0x0A],
      TOpen ''kml'' [(''xmlns'', ''http://www.opengis.net/kml/2.2'')],
      TText ([CHR 0x0A] @ ''  ''),
      TOpen ''Document'' [],
      TText ([CHR 0x0A] @ ''    ''),
      TOpen ''name'' [],
      TText ''Craft Beer Map Spain'',
      TClose ''name'',
      TText ([CHR 0x0A] @ ''    ''),
      TOpen ''Folder'' [],
      TText ([CHR 0x0A] @ ''      ''),
      TOpen ''name'' [],
      TText label,
      TClose ''name'',
      TText ([CHR 0x0A] @ ''      ''),
      TOpen ''Placemark'' [],
      TText ([CHR 0x0A] @ ''        ''),
      TOpen ''name'' [],
      TText nm,
      TClose ''name'',
      TText ([CHR 0x0A] @ ''        ''),
      TOpen ''description'' [],
      TText d,
      TClose ''description'',
      TText ([CHR 0x0A] @ ''        ''),
      TOpen ''ExtendedData'' [],
      TText ([CHR 0x0A] @ ''          ''),
      TOpen ''Data'' [(''name'', ''address'')],
      TOpen ''value'' [],
      TText a,
      TClose ''value'',
      TClose ''Data'',
      TText ([CHR 0x0A] @ ''          ''),
      TOpen ''Data'' [(''name'', ''website'')],
      TOpen ''value'' [],
      TText w,
      TClose ''value'',
      TClose ''Data'',
      TText ([CHR 0x0A] @ ''          ''),
      TOpen ''Data'' [(''name'', ''googleMapsUri'')],
      TOpen ''value'' [],
      TText m,
      TClose ''value'',
      TClose ''Data'',
      TText ([CHR 0x0A] @ ''          ''),
      TOpen ''Data'' [(''name'', ''aliveStatus'')],
      TOpen ''value'' [],
      TText s,
      TClose ''value'',
      TClose ''Data'',
      TText ([CHR 0x0A] @ ''        ''),
      TClose ''ExtendedData'',
      TText ([CHR 0x0A] @ ''        ''),
      TOpen ''Point'' [],
      TText ([CHR 0x0A] @ ''          ''),
      TOpen ''coordinates'' [],
      TText c,
      TClose ''coordinates'',
      TText ([CHR 0x0A] @ ''        ''),
      TClose ''Point'',
      TText ([CHR 0x0A] @ ''      ''),
      TClose ''Placemark'',
      TText ([CHR 0x0A] @ ''    ''),
      TClose ''Folder'',
      TText ([CHR 0x0A] @ ''  ''),
      TClose ''Document'',
      TText [CHR 0x0A],
      TClose ''kml'']"

definition exportedPlacemark ::
  "string \<Rightarrow> string \<Rightarrow> string \<Rightarrow> string \<Rightarrow> string \<Rightarrow> string \<Rightarrow> string \<Rightarrow> xml" where
  "exportedPlacemark nm d a w m s c =
     Element ''Placemark'' []
       [Text ([CHR 0x0A] @ ''        ''), Element ''name'' [] [Text nm],
        Text ([CHR 0x0A] @ ''        ''), Element ''description'' [] [Text d],
        Text ([CHR 0x0A] @ ''        ''),
        Element ''ExtendedData'' []
          [Text ([CHR 0x0A] @ ''          ''), Element ''Data'' [(''name'', ''address'')] [Element ''value'' [] [Text a]],
           Text ([CHR 0x0A] @ ''          ''), Element ''Data'' [(''name'', ''website'')] [Element ''value'' [] [Text w]],
           Text ([CHR 0x0A] @ ''          ''), Element ''Data'' [(''name'', ''googleMapsUri'')] [Element ''value'' [] [Text m]],
           Text ([CHR 0x0A] @ ''          ''), Element ''Data'' [(''name'', ''aliveStatus'')] [Element ''value'' [] [Text s]],
           Text ([CHR 0x0A] @ ''        '')],
        Text ([CHR 0x0A] @ ''        ''),
        Element ''Point'' []
          [Text ([CHR 0x0A] @ ''          ''), Element ''coordinates'' [] [Text c], Text ([CHR 0x0A] @ ''        '')],
        Text ([CHR 0x0A] @ ''      '')]"

definition exportedRoot :: "string \<Rightarrow> xml \<Rightarrow> xml" where
  "exportedRoot label pm =
     Element ''kml'' [(''xmlns'', ''http://www.opengis.net/kml/2.2'')]
       [Text ([CHR 0x0A] @ ''  ''),
        Element ''Document'' []
          [Text ([CHR 0x0A] @ ''    ''), Element ''name'' [] [Text ''Craft Beer Map Spain''],
           Text ([CHR 0x0A] @ ''    ''),
           Element ''Folder'' []
             [Text ([CHR 0x0A] @ ''      ''), Element ''name'' [] [Text label],
              Text ([CHR 0x0A] @ ''      ''), pm, Text ([CHR 0x0A] @ ''    '')],
           Text ([CHR 0x0A] @ ''  '')],
        Text [CHR 0x0A]]"

definition exportedDocument :: "string \<Rightarrow> xml \<Rightarrow> xml" where
  "exportedDocument label pm = Element ''#document'' [] [exportedRoot label pm]"

section \<open>Properties\<close>

subsection \<open>Evaluation of the platform functions\<close>

lemma toLowerCase_examples:
  "toLowerCase ''ROW 44'' = ''row 44''"
  "toLowerCase ''Row 44'' = ''row 44''"
  "toLowerCase ''New Place'' = ''new place''"
  "toLowerCase ''New Location'' = ''new location''"
  by code_simp+

lemma parseFloat_examples:
  "parseFloat ''notanumber'' = NaN"
  "parseFloat ''Infinity'' = PosInfinity"
  "parseFloat ''40.1'' = Finite (401 / 10)"
  "parseFloat ''-3.7'' = Finite (- (37 / 10))"
  by (simp_all add: parseFloat_def isWhiteSpace_def isDigit_def Let_def exponentPart_def
      digitsValue_def digitValue_def pow10_def)

lemma trim_examples:
  "trim ''notanumber,40.1'' = ''notanumber,40.1''"
  "trim ''Infinity,40.1'' = ''Infinity,40.1''"
  "trim ''-3.7,40.1'' = ''-3.7,40.1''"
  by (simp_all add: trim_def isWhiteSpace_def)

lemma split_examples:
  "split (CHR '','') ''notanumber,40.1'' = [''notanumber'', ''40.1'']"
  "split (CHR '','') ''Infinity,40.1'' = [''Infinity'', ''40.1'']"
  "split (CHR '','') ''-3.7,40.1'' = [''-3.7'', ''40.1'']"
  by simp_all

lemma cleanDesc_Nil: "cleanDesc [] = []"
  by (simp add: cleanDesc_def trim_def)

subsection \<open>The sample placemarks\<close>

lemma coordsRaw_placemarkElement: "coordsRaw (placemarkElement nm c) = Some (trim c)"
  by (simp add: coordsRaw_def placemarkElement_def getElementsByTagName_def first_def)

lemma fields_placemarkElement:
  "extractFields noAnchors (placemarkElement nm c)
     = \<lparr>x_website = [], x_googleMapsUri = [], x_address = [], x_aliveStatus = Unknown\<rparr>"
  "placemarkName (placemarkElement nm c) = (if nm \<noteq> [] then nm else ''Unknown Location'')"
  "placemarkDescription (placemarkElement nm c) = []"
  by (simp_all add: extractFields_def placemarkElement_def getElementsByTagName_def first_def
      placemarkName_def placemarkDescription_def noAnchors_def)

lemma decodedBrewery_placemarkElement:
  "nm \<noteq> [] \<Longrightarrow>
   decodedBrewery i (placemarkElement nm c) cat
     \<lparr>x_website = [], x_googleMapsUri = [], x_address = [], x_aliveStatus = Unknown\<rparr> y x
   = \<lparr>id' = i, name = nm, description = [], category = cat,
      coordinates = \<lparr>lat = y, lng = x\<rparr>,
      address = Some [], website = None, googleMapsUri = None,
      aliveStatus = Some Unknown, lastAliveCheck = None\<rparr>"
  by (simp add: decodedBrewery_def fields_placemarkElement cleanDesc_Nil)




lemma elements_documentOf:
  "getElementsByTagName (documentOf [placemarkElement a b]) ''Folder'' = []"
  "getElementsByTagName (documentOf [placemarkElement a b]) ''Placemark''
     = [placemarkElement a b]"
  "getElementsByTagName (documentOf [placemarkElement a b, placemarkElement c d]) ''Folder''
     = []"
  "getElementsByTagName (documentOf [placemarkElement a b, placemarkElement c d]) ''Placemark''
     = [placemarkElement a b, placemarkElement c d]"
  by (simp_all add: getElementsByTagName_def documentOf_def placemarkElement_def)

subsection \<open>What the decoding loops preserve\<close>







subsection \<open>The tokens of a text\<close>

declare tokenize.simps [simp del] parseAttributes.simps [simp del]

lemma splitAt_append:
  "\<forall>k < length s. \<not> prefix sep (drop k (s @ sep @ r)) \<Longrightarrow> sep \<noteq> [] \<Longrightarrow>
   splitAt sep (s @ sep @ r) = Some (s, r)"
proof (induction s)
  case Nil
  then show ?case by (cases sep) simp_all
next
  case (Cons c s)
  from Cons.prems(1) have "\<not> prefix sep (drop 0 ((c # s) @ sep @ r))" by blast
  then have np: "\<not> prefix sep (c # s @ sep @ r)" by simp
  have "\<forall>k < length s. \<not> prefix sep (drop k (s @ sep @ r))"
  proof (intro allI impI)
    fix k assume "k < length s"
    then have "Suc k < length (c # s)" by simp
    with Cons.prems(1) have "\<not> prefix sep (drop (Suc k) ((c # s) @ sep @ r))" by blast
    then show "\<not> prefix sep (drop k (s @ sep @ r))" by simp
  qed
  from Cons.IH [OF this Cons.prems(2)] np show ?case by simp
qed

lemma splitAt_char:
  "c \<notin> set s \<Longrightarrow> splitAt [c] (s @ c # r) = Some (s, r)"
  by (induction s) auto

lemma no_cdata_end_prefix:
  assumes "\<not> sublist '']]>'' s" "k < length s"
  shows "\<not> prefix '']]>'' (drop k (s @ '']]>'' @ r))"
proof
  assume p: "prefix '']]>'' (drop k (s @ '']]>'' @ r))"
  let ?d = "drop k s"
  from assms(2) have d: "drop k (s @ '']]>'' @ r) = ?d @ '']]>'' @ r" and ne: "?d \<noteq> []"
    by simp_all
  have sub: "\<not> prefix '']]>'' ?d"
  proof
    assume "prefix '']]>'' ?d"
    then obtain z where "?d = '']]>'' @ z" by (auto simp: prefix_def)
    then have "s = take k s @ '']]>'' @ z" by (metis append_take_drop_id)
    then have "sublist '']]>'' s" by (metis sublist_def)
    with assms(1) show False by simp
  qed
  from p have p': "prefix '']]>'' (?d @ '']]>'' @ r)"
    unfolding d .
  from ne obtain a d1 where d1: "?d = a # d1" by (cases ?d) auto
  show False
  proof (cases d1)
    case Nil
    with d1 have "?d = [a]" by simp
    with p' show False by simp
  next
    case (Cons b d2)
    show False
    proof (cases d2)
      case Nil
      with d1 Cons have "?d = [a, b]" by simp
      with p' show False by simp
    next
      case (Cons e d3)
      with d1 \<open>d1 = b # d2\<close> have "?d = a # b # e # d3" by simp
      with p' sub show False by auto
    qed
  qed
qed

lemma splitAt_cdata:
  "\<not> includes' s '']]>'' \<Longrightarrow> splitAt '']]>'' (s @ '']]>'' @ r) = Some (s, r)"
  by (rule splitAt_append) (auto simp: includes'_def dest: no_cdata_end_prefix)

lemma tokenize_cdata:
  "\<not> includes' s '']]>'' \<Longrightarrow>
   tokenize (''<![CDATA['' @ s @ '']]>'' @ r) = map_option (Cons (TText s)) (tokenize r)"
  using splitAt_cdata [of s r]
  by (simp add: tokenize.simps)

lemma takeWhile_until:
  "c \<notin> set s \<Longrightarrow> takeWhile (\<lambda>x. x \<noteq> c) (s @ c # r) = s"
  by (induction s) auto

lemma dropWhile_until:
  "c \<notin> set s \<Longrightarrow> dropWhile (\<lambda>x. x \<noteq> c) (s @ c # r) = c # r"
  by (induction s) auto

lemma tokenize_text:
  assumes "tx \<noteq> []" "CHR ''<'' \<notin> set tx" "CHR ''&'' \<notin> set tx"
  shows "tokenize (tx @ CHR ''<'' # r)
     = map_option (Cons (TText tx)) (tokenize (CHR ''<'' # r))"
proof -
  from assms(1) obtain c cs where t: "tx = c # cs" by (cases tx) auto
  from assms(2) have tw: "takeWhile (\<lambda>x. x \<noteq> CHR ''<'') (tx @ CHR ''<'' # r) = tx"
    by (rule takeWhile_until)
  from assms(2) t have dw: "dropWhile (\<lambda>x. x \<noteq> CHR ''<'') (cs @ CHR ''<'' # r) = CHR ''<'' # r"
    by (simp add: dropWhile_until)
  from assms(2) t have c: "c \<noteq> CHR ''<''" by auto
  have "tokenize (c # cs @ CHR ''<'' # r) = map_option (Cons (TText tx)) (tokenize (CHR ''<'' # r))"
    using tw dw c assms(3) unfolding t
    by (subst tokenize.simps) simp
  then show ?thesis by (simp add: t)
qed

lemma tokenize_tag:
  assumes "parseTag t = Some tok" "CHR ''>'' \<notin> set t"
    "\<not> prefix ''!'' t" "\<not> prefix ''?'' t"
  shows "tokenize (CHR ''<'' # t @ CHR ''>'' # r) = map_option (Cons tok) (tokenize r)"
proof -
  have s: "splitAt ''>'' (t @ CHR ''>'' # r) = Some (t, r)"
    using assms(2) by (rule splitAt_char)
  from assms(3) have n1: "\<not> prefix ''![CDATA['' (t @ CHR ''>'' # r)" "\<not> prefix ''!--'' (t @ CHR ''>'' # r)"
    by (cases t; simp)+
  from assms(4) have n2: "\<not> prefix ''?'' (t @ CHR ''>'' # r)"
    by (cases t; simp)
  show ?thesis
    by (subst tokenize.simps) (simp add: s n1 n2 assms(1))
qed

lemmas tok_defs = parseTag_def parseAttribute_def isName_def isNameChar_def
  isNameStartChar_def isXmlSpace_def parseAttributes.simps

lemma parseTag_plain:
  "parseTag ''Document'' = Some (TOpen ''Document'' [])"
  "parseTag ''name'' = Some (TOpen ''name'' [])"
  "parseTag ''Folder'' = Some (TOpen ''Folder'' [])"
  "parseTag ''Placemark'' = Some (TOpen ''Placemark'' [])"
  "parseTag ''description'' = Some (TOpen ''description'' [])"
  "parseTag ''ExtendedData'' = Some (TOpen ''ExtendedData'' [])"
  "parseTag ''value'' = Some (TOpen ''value'' [])"
  "parseTag ''Point'' = Some (TOpen ''Point'' [])"
  "parseTag ''coordinates'' = Some (TOpen ''coordinates'' [])"
  "parseTag ''/kml'' = Some (TClose ''kml'')"
  "parseTag ''/Document'' = Some (TClose ''Document'')"
  "parseTag ''/name'' = Some (TClose ''name'')"
  "parseTag ''/Folder'' = Some (TClose ''Folder'')"
  "parseTag ''/Placemark'' = Some (TClose ''Placemark'')"
  "parseTag ''/description'' = Some (TClose ''description'')"
  "parseTag ''/ExtendedData'' = Some (TClose ''ExtendedData'')"
  "parseTag ''/value'' = Some (TClose ''value'')"
  "parseTag ''/Data'' = Some (TClose ''Data'')"
  "parseTag ''/Point'' = Some (TClose ''Point'')"
  "parseTag ''/coordinates'' = Some (TClose ''coordinates'')"
  by (simp_all add: tok_defs)

lemma parseTag_attr:
  "parseTag (''Data name='' @ [CHR 0x22] @ ''address'' @ [CHR 0x22])
     = Some (TOpen ''Data'' [(''name'', ''address'')])"
  "parseTag (''Data name='' @ [CHR 0x22] @ ''website'' @ [CHR 0x22])
     = Some (TOpen ''Data'' [(''name'', ''website'')])"
  "parseTag (''Data name='' @ [CHR 0x22] @ ''googleMapsUri'' @ [CHR 0x22])
     = Some (TOpen ''Data'' [(''name'', ''googleMapsUri'')])"
  "parseTag (''Data name='' @ [CHR 0x22] @ ''aliveStatus'' @ [CHR 0x22])
     = Some (TOpen ''Data'' [(''name'', ''aliveStatus'')])"
  "parseTag (''kml xmlns='' @ [CHR 0x22] @ ''http://www.opengis.net/kml/2.2'' @ [CHR 0x22])
     = Some (TOpen ''kml'' [(''xmlns'', ''http://www.opengis.net/kml/2.2'')])"
  by (simp_all add: tok_defs)

lemma tokenize_plain:
  "tokenize (''<Document>'' @ r) = map_option (Cons (TOpen ''Document'' [])) (tokenize r)"
  "tokenize (''<name>'' @ r) = map_option (Cons (TOpen ''name'' [])) (tokenize r)"
  "tokenize (''<Folder>'' @ r) = map_option (Cons (TOpen ''Folder'' [])) (tokenize r)"
  "tokenize (''<Placemark>'' @ r) = map_option (Cons (TOpen ''Placemark'' [])) (tokenize r)"
  "tokenize (''<description>'' @ r) = map_option (Cons (TOpen ''description'' [])) (tokenize r)"
  "tokenize (''<ExtendedData>'' @ r) = map_option (Cons (TOpen ''ExtendedData'' [])) (tokenize r)"
  "tokenize (''<value>'' @ r) = map_option (Cons (TOpen ''value'' [])) (tokenize r)"
  "tokenize (''<Point>'' @ r) = map_option (Cons (TOpen ''Point'' [])) (tokenize r)"
  "tokenize (''<coordinates>'' @ r) = map_option (Cons (TOpen ''coordinates'' [])) (tokenize r)"
  "tokenize (''</kml>'' @ r) = map_option (Cons (TClose ''kml'')) (tokenize r)"
  "tokenize (''</Document>'' @ r) = map_option (Cons (TClose ''Document'')) (tokenize r)"
  "tokenize (''</name>'' @ r) = map_option (Cons (TClose ''name'')) (tokenize r)"
  "tokenize (''</Folder>'' @ r) = map_option (Cons (TClose ''Folder'')) (tokenize r)"
  "tokenize (''</Placemark>'' @ r) = map_option (Cons (TClose ''Placemark'')) (tokenize r)"
  "tokenize (''</description>'' @ r) = map_option (Cons (TClose ''description'')) (tokenize r)"
  "tokenize (''</ExtendedData>'' @ r) = map_option (Cons (TClose ''ExtendedData'')) (tokenize r)"
  "tokenize (''</value>'' @ r) = map_option (Cons (TClose ''value'')) (tokenize r)"
  "tokenize (''</Data>'' @ r) = map_option (Cons (TClose ''Data'')) (tokenize r)"
  "tokenize (''</Point>'' @ r) = map_option (Cons (TClose ''Point'')) (tokenize r)"
  "tokenize (''</coordinates>'' @ r) = map_option (Cons (TClose ''coordinates'')) (tokenize r)"
  using tokenize_tag [of "''Document''" "TOpen ''Document'' []" r] apply (simp add: parseTag_plain) 
  using tokenize_tag [of "''name''" "TOpen ''name'' []" r] apply (simp add: parseTag_plain) 
  using tokenize_tag [of "''Folder''" "TOpen ''Folder'' []" r] apply (simp add: parseTag_plain) 
  using tokenize_tag [of "''Placemark''" "TOpen ''Placemark'' []" r] apply (simp add: parseTag_plain) 
  using tokenize_tag [of "''description''" "TOpen ''description'' []" r] apply (simp add: parseTag_plain) 
  using tokenize_tag [of "''ExtendedData''" "TOpen ''ExtendedData'' []" r] apply (simp add: parseTag_plain) 
  using tokenize_tag [of "''value''" "TOpen ''value'' []" r] apply (simp add: parseTag_plain) 
  using tokenize_tag [of "''Point''" "TOpen ''Point'' []" r] apply (simp add: parseTag_plain) 
  using tokenize_tag [of "''coordinates''" "TOpen ''coordinates'' []" r] apply (simp add: parseTag_plain) 
  using tokenize_tag [of "''/kml''" "TClose ''kml''" r] apply (simp add: parseTag_plain) 
  using tokenize_tag [of "''/Document''" "TClose ''Document''" r] apply (simp add: parseTag_plain) 
  using tokenize_tag [of "''/name''" "TClose ''name''" r] apply (simp add: parseTag_plain) 
  using tokenize_tag [of "''/Folder''" "TClose ''Folder''" r] apply (simp add: parseTag_plain) 
  using tokenize_tag [of "''/Placemark''" "TClose ''Placemark''" r] apply (simp add: parseTag_plain) 
  using tokenize_tag [of "''/description''" "TClose ''description''" r] apply (simp add: parseTag_plain) 
  using tokenize_tag [of "''/ExtendedData''" "TClose ''ExtendedData''" r] apply (simp add: parseTag_plain) 
  using tokenize_tag [of "''/value''" "TClose ''value''" r] apply (simp add: parseTag_plain) 
  using tokenize_tag [of "''/Data''" "TClose ''Data''" r] apply (simp add: parseTag_plain) 
  using tokenize_tag [of "''/Point''" "TClose ''Point''" r] apply (simp add: parseTag_plain) 
  using tokenize_tag [of "''/coordinates''" "TClose ''coordinates''" r] apply (simp add: parseTag_plain) 
  done

lemma tokenize_attr:
  "tokenize (''<Data name='' @ [CHR 0x22] @ ''address'' @ [CHR 0x22] @ ''>'' @ r)
     = map_option (Cons (TOpen ''Data'' [(''name'', ''address'')])) (tokenize r)"
  "tokenize (''<Data name='' @ [CHR 0x22] @ ''website'' @ [CHR 0x22] @ ''>'' @ r)
     = map_option (Cons (TOpen ''Data'' [(''name'', ''website'')])) (tokenize r)"
  "tokenize (''<Data name='' @ [CHR 0x22] @ ''googleMapsUri'' @ [CHR 0x22] @ ''>'' @ r)
     = map_option (Cons (TOpen ''Data'' [(''name'', ''googleMapsUri'')])) (tokenize r)"
  "tokenize (''<Data name='' @ [CHR 0x22] @ ''aliveStatus'' @ [CHR 0x22] @ ''>'' @ r)
     = map_option (Cons (TOpen ''Data'' [(''name'', ''aliveStatus'')])) (tokenize r)"
  "tokenize (''<kml xmlns='' @ [CHR 0x22] @ ''http://www.opengis.net/kml/2.2'' @ [CHR 0x22] @ ''>'' @ r)
     = map_option (Cons (TOpen ''kml'' [(''xmlns'', ''http://www.opengis.net/kml/2.2'')])) (tokenize r)"
  using tokenize_tag [of "''Data name='' @ [CHR 0x22] @ ''address'' @ [CHR 0x22]" "TOpen ''Data'' [(''name'', ''address'')]" r] parseTag_attr apply simp
  using tokenize_tag [of "''Data name='' @ [CHR 0x22] @ ''website'' @ [CHR 0x22]" "TOpen ''Data'' [(''name'', ''website'')]" r] parseTag_attr apply simp
  using tokenize_tag [of "''Data name='' @ [CHR 0x22] @ ''googleMapsUri'' @ [CHR 0x22]" "TOpen ''Data'' [(''name'', ''googleMapsUri'')]" r] parseTag_attr apply simp
  using tokenize_tag [of "''Data name='' @ [CHR 0x22] @ ''aliveStatus'' @ [CHR 0x22]" "TOpen ''Data'' [(''name'', ''aliveStatus'')]" r] parseTag_attr apply simp
  using tokenize_tag [of "''kml xmlns='' @ [CHR 0x22] @ ''http://www.opengis.net/kml/2.2'' @ [CHR 0x22]" "TOpen ''kml'' [(''xmlns'', ''http://www.opengis.net/kml/2.2'')]" r] parseTag_attr apply simp
  done

lemma tokenize_indent:
  "tokenize ([CHR 0x0A] @ [] @ CHR ''<'' # r)
     = map_option (Cons (TText ([CHR 0x0A] @ []))) (tokenize (CHR ''<'' # r))"
  "tokenize ([CHR 0x0A] @ ''  '' @ CHR ''<'' # r)
     = map_option (Cons (TText ([CHR 0x0A] @ ''  ''))) (tokenize (CHR ''<'' # r))"
  "tokenize ([CHR 0x0A] @ ''    '' @ CHR ''<'' # r)
     = map_option (Cons (TText ([CHR 0x0A] @ ''    ''))) (tokenize (CHR ''<'' # r))"
  "tokenize ([CHR 0x0A] @ ''      '' @ CHR ''<'' # r)
     = map_option (Cons (TText ([CHR 0x0A] @ ''      ''))) (tokenize (CHR ''<'' # r))"
  "tokenize ([CHR 0x0A] @ ''        '' @ CHR ''<'' # r)
     = map_option (Cons (TText ([CHR 0x0A] @ ''        ''))) (tokenize (CHR ''<'' # r))"
  "tokenize ([CHR 0x0A] @ ''          '' @ CHR ''<'' # r)
     = map_option (Cons (TText ([CHR 0x0A] @ ''          ''))) (tokenize (CHR ''<'' # r))"
  using tokenize_text [of "[CHR 0x0A] @ []" r] apply simp
  using tokenize_text [of "[CHR 0x0A] @ ''  ''" r] apply simp
  using tokenize_text [of "[CHR 0x0A] @ ''    ''" r] apply simp
  using tokenize_text [of "[CHR 0x0A] @ ''      ''" r] apply simp
  using tokenize_text [of "[CHR 0x0A] @ ''        ''" r] apply simp
  using tokenize_text [of "[CHR 0x0A] @ ''          ''" r] apply simp
  done

lemma tokenize_declaration:
  "tokenize (''<?xml version='' @ [CHR 0x22] @ ''1.0'' @ [CHR 0x22] @ '' encoding='' @ [CHR 0x22]
     @ ''UTF-8'' @ [CHR 0x22] @ ''?>'' @ r) = tokenize r"
  by (simp add: tokenize.simps)

lemma tokenize_title:
  "tokenize (''Craft Beer Map Spain'' @ CHR ''<'' # r)
     = map_option (Cons (TText ''Craft Beer Map Spain'')) (tokenize (CHR ''<'' # r))"
  using tokenize_text [of "''Craft Beer Map Spain''" r] by simp

lemma tokenize_coordinates:
  assumes "CHR ''<'' \<notin> set x" "CHR ''&'' \<notin> set x" "CHR ''<'' \<notin> set y" "CHR ''&'' \<notin> set y"
  shows "tokenize (x @ CHR '','' # y @ CHR '','' # CHR ''0'' # CHR ''<'' # r)
     = map_option (Cons (TText (x @ CHR '','' # y @ '',0''))) (tokenize (CHR ''<'' # r))"
  using tokenize_text [of "x @ CHR '','' # y @ '',0''" r] assms by simp

lemmas tokenize_cons =
  tokenize_plain [unfolded append_Cons append_Nil]
  tokenize_attr [unfolded append_Cons append_Nil]
  tokenize_indent [unfolded append_Cons append_Nil]
  tokenize_declaration [unfolded append_Cons append_Nil]
  tokenize_title [unfolded append_Cons append_Nil]
  tokenize_cdata [unfolded append_Cons append_Nil]

subsection \<open>Parsing and decoding an export with one record\<close>

lemma folders_single:
  "concat (map (folderKML ns [v]) [MYTHIC, GOLD, SILVER, COMMON, TAP_ROOM])
     = folderKML ns [v] (category v)"
  by (cases "category v") (simp_all add: folderKML_def)

lemma categoryLabel_text:
  "categoryLabel c \<noteq> []" "CHR ''<'' \<notin> set (categoryLabel c)" "CHR ''&'' \<notin> set (categoryLabel c)"
  "list_all isXmlChar (categoryLabel c)" "CHR 0x0D \<notin> set (categoryLabel c)"
  by (cases c; simp add: categoryLabel_def isXmlChar_def)+

lemma no_bracket_no_cdata_end:
  "CHR '']'' \<notin> set s \<Longrightarrow> \<not> includes' s '']]>''"
  unfolding includes'_def
  using set_mono_sublist [of "'']]>''" s] by auto

lemma statusLabel_text:
  "statusLabel s \<noteq> []" "\<not> includes' (statusLabel s) '']]>''"
  "list_all isXmlChar (statusLabel s)" "CHR 0x0D \<notin> set (statusLabel s)"
  by (cases s; simp add: statusLabel_def isXmlChar_def no_bracket_no_cdata_end)+

lemma folder_single:
  "folderKML ns [v] (category v)
     = ''    <Folder>'' @ [CHR 0x0A]
       @ ''      <name>'' @ categoryLabel (category v) @ ''</name>'' @ [CHR 0x0A]
       @ placemarkKML ns v
       @ ''    </Folder>'' @ [CHR 0x0A]"
  by (simp add: folderKML_def)

lemma export_single:
  "exportKML ns [v]
     = ''<?xml version='' @ [CHR 0x22] @ ''1.0'' @ [CHR 0x22] @ '' encoding='' @ [CHR 0x22]
       @ ''UTF-8'' @ [CHR 0x22] @ ''?>'' @ [CHR 0x0A]
       @ ''<kml xmlns='' @ [CHR 0x22] @ ''http://www.opengis.net/kml/2.2'' @ [CHR 0x22] @ ''>''
       @ [CHR 0x0A]
       @ ''  <Document>'' @ [CHR 0x0A]
       @ ''    <name>Craft Beer Map Spain</name>'' @ [CHR 0x0A]
       @ ''    <Folder>'' @ [CHR 0x0A]
       @ ''      <name>'' @ categoryLabel (category v) @ ''</name>'' @ [CHR 0x0A]
       @ placemarkKML ns v
       @ ''    </Folder>'' @ [CHR 0x0A]
       @ ''  </Document>'' @ [CHR 0x0A]
       @ ''</kml>''"
  unfolding exportKML_def folders_single folder_single by simp

lemma normalizeLineEnds_id: "CHR 0x0D \<notin> set s \<Longrightarrow> normalizeLineEnds s = s"
  by (induction s rule: normalizeLineEnds.induct) auto

lemma cdataSafe_simps:
  "cdataSafe s \<Longrightarrow> list_all isXmlChar s"
  "cdataSafe s \<Longrightarrow> CHR 0x0D \<notin> set s"
  "cdataSafe s \<Longrightarrow> \<not> includes' s '']]>''"
  by (simp_all add: cdataSafe_def)

lemma numberText_simps:
  "numberText s \<Longrightarrow> list_all isXmlChar s"
  "numberText s \<Longrightarrow> CHR 0x0D \<notin> set s"
  "numberText s \<Longrightarrow> CHR ''<'' \<notin> set s"
  "numberText s \<Longrightarrow> CHR ''&'' \<notin> set s"
  "numberText s \<Longrightarrow> CHR '','' \<notin> set s"
  "numberText s \<Longrightarrow> s \<noteq> []"
  by (auto simp add: numberText_def list_all_iff)

lemma export_chars:
  assumes "address v = Some a" "a \<noteq> []" "website v = Some w" "w \<noteq> []"
    "googleMapsUri v = Some m" "m \<noteq> []" "aliveStatus v = Some s"
    "cdataSafe (name v)" "cdataSafe (description v)" "cdataSafe a" "cdataSafe w" "cdataSafe m"
    "numberText (ns (lng (coordinates v)))" "numberText (ns (lat (coordinates v)))"
  shows "list_all isXmlChar (exportKML ns [v])" "CHR 0x0D \<notin> set (exportKML ns [v])"
  using assms
  by (simp_all add: export_single placemarkKML_def optionalData_def
      dataElement_def cdata_def categoryLabel_text statusLabel_text cdataSafe_simps numberText_simps isXmlChar_def)

lemma export_tokens:
  assumes "address v = Some a" "a \<noteq> []" "website v = Some w" "w \<noteq> []"
    "googleMapsUri v = Some m" "m \<noteq> []" "aliveStatus v = Some s"
    "cdataSafe (name v)" "cdataSafe (description v)" "cdataSafe a" "cdataSafe w" "cdataSafe m"
    "numberText (ns (lng (coordinates v)))" "numberText (ns (lat (coordinates v)))"
  shows "tokenize (exportKML ns [v])
     = Some (exportedTokens (categoryLabel (category v)) (name v) (description v) a w m
         (statusLabel s)
         (ns (lng (coordinates v)) @ CHR '','' # ns (lat (coordinates v)) @ '',0''))"
  using assms
  by (simp add: export_single placemarkKML_def optionalData_def
      dataElement_def cdata_def tokenize_cons tokenize_text categoryLabel_text statusLabel_text
      tokenize_coordinates tokenize.simps(1) cdataSafe_simps numberText_simps exportedTokens_def)

lemma build_exported:
  "build (exportedTokens label nm d a w m s c) [(''#document'', [], [])]
     = Some (Element ''#document'' []
         [Text [CHR 0x0A], exportedRoot label (exportedPlacemark nm d a w m s c)])"
  by (simp add: exportedTokens_def exportedRoot_def exportedPlacemark_def)

lemma parse_export:
  assumes "address v = Some a" "a \<noteq> []" "website v = Some w" "w \<noteq> []"
    "googleMapsUri v = Some m" "m \<noteq> []" "aliveStatus v = Some s"
    "cdataSafe (name v)" "cdataSafe (description v)" "cdataSafe a" "cdataSafe w" "cdataSafe m"
    "numberText (ns (lng (coordinates v)))" "numberText (ns (lat (coordinates v)))"
  shows "parseFromString (exportKML ns [v])
     = exportedDocument (categoryLabel (category v))
         (exportedPlacemark (name v) (description v) a w m (statusLabel s)
            (ns (lng (coordinates v)) @ CHR '','' # ns (lat (coordinates v)) @ '',0''))"
proof -
  have e: "isElement (exportedRoot label pm)" "\<not> isElement (Text tx)" for label pm tx
    by (simp_all add: isElement_def exportedRoot_def)
  show ?thesis
    using export_chars [OF assms] export_tokens [OF assms]
    by (simp add: parseFromString_def normalizeLineEnds_id build_exported exportedDocument_def
        e isXmlSpace_def)
qed

lemma toLowerCase_names:
  "toLowerCase ''address'' = ''address''"
  "toLowerCase ''website'' = ''website''"
  "toLowerCase ''googleMapsUri'' = ''googlemapsuri''"
  "toLowerCase ''aliveStatus'' = ''alivestatus''"
  by code_simp+

lemma elements_exportedPlacemark:
  "filter (\<lambda>e. tagName e = ''Placemark'') (subtreeElements (exportedPlacemark nm d a w m s c))
     = [exportedPlacemark nm d a w m s c]"
  "filter (\<lambda>e. tagName e = ''Folder'') (subtreeElements (exportedPlacemark nm d a w m s c)) = []"
  by (simp_all add: exportedPlacemark_def)

lemma elements_exportedDocument:
  "getElementsByTagName (exportedDocument label (exportedPlacemark nm d a w m s c)) ''Folder''
     = [Element ''Folder'' []
             [Text ([CHR 0x0A] @ ''      ''), Element ''name'' [] [Text label],
              Text ([CHR 0x0A] @ ''      ''), exportedPlacemark nm d a w m s c,
              Text ([CHR 0x0A] @ ''    '')]]"
  by (simp add: getElementsByTagName_def exportedDocument_def exportedRoot_def
      elements_exportedPlacemark)

lemma elements_exportedFolder:
  "getElementsByTagName (Element ''Folder'' []
             [Text t1, Element ''name'' [] [Text label],
              Text t2, exportedPlacemark nm d a w m s c,
              Text t3]) ''Placemark'' = [exportedPlacemark nm d a w m s c]"
  "first (getElementsByTagName (Element ''Folder'' []
             [Text t1, Element ''name'' [] [Text label],
              Text t2, exportedPlacemark nm d a w m s c,
              Text t3]) ''name'') = Some (Element ''name'' [] [Text label])"
  by (simp_all add: getElementsByTagName_def elements_exportedPlacemark first_def)

lemma decode_exportedDocument:
  "decodeKML h g (exportedDocument label (exportedPlacemark nm d a w m s c))
     = parsePlacemarks h g (getCategoryFromFolder label) [exportedPlacemark nm d a w m s c] []"
  by (simp add: decodeKML_def elements_exportedDocument elements_exportedFolder Let_def
      split: option.splits)

lemma name_exportedPlacemark:
  "placemarkName (exportedPlacemark nm d a w m s c)
     = (if nm \<noteq> [] then nm else ''Unknown Location'')"
  "placemarkDescription (exportedPlacemark nm d a w m s c) = d"
  "coordsRaw (exportedPlacemark nm d a w m s c) = Some (trim c)"
  by (simp_all add: placemarkName_def placemarkDescription_def coordsRaw_def
      exportedPlacemark_def getElementsByTagName_def first_def)

lemma data_exportedPlacemark:
  "getElementsByTagName (exportedPlacemark nm d a w m s c) ''Data''
     = [Element ''Data'' [(''name'', ''address'')] [Element ''value'' [] [Text a]],
        Element ''Data'' [(''name'', ''website'')] [Element ''value'' [] [Text w]],
        Element ''Data'' [(''name'', ''googleMapsUri'')] [Element ''value'' [] [Text m]],
        Element ''Data'' [(''name'', ''aliveStatus'')] [Element ''value'' [] [Text s]]]"
  "getElementsByTagName (exportedPlacemark nm d a w m s c) ''SimpleData'' = []"
  by (simp_all add: exportedPlacemark_def getElementsByTagName_def)

lemma dataStep_exported:
  "dataStep x (Element ''Data'' [(''name'', ''address'')] [Element ''value'' [] [Text a]])
     = (if trim a \<noteq> [] then x\<lparr>x_address := trim a\<rparr> else x)"
  "dataStep x (Element ''Data'' [(''name'', ''website'')] [Element ''value'' [] [Text w]])
     = (if trim w \<noteq> [] then x\<lparr>x_website := firstWord (trim w)\<rparr> else x)"
  "dataStep x (Element ''Data'' [(''name'', ''googleMapsUri'')] [Element ''value'' [] [Text m]])
     = (if trim m \<noteq> [] then x\<lparr>x_googleMapsUri := trim m\<rparr> else x)"
  "dataStep x (Element ''Data'' [(''name'', ''aliveStatus'')] [Element ''value'' [] [Text s]])
     = (if trim s \<noteq> [] then setStatus (trim s) x else x)"
  by (simp_all add: dataStep_def toLowerCase_names getElementsByTagName_def first_def
      mapsAliases_def addressAliases_def statusAliases_def firstWord_def)

lemma trim_id:
  assumes "s \<noteq> []" "\<not> isWhiteSpace (hd s)" "\<not> isWhiteSpace (last s)"
  shows "trim s = s"
proof -
  from assms(1,2) have a: "dropWhile isWhiteSpace s = s" by (cases s) auto
  from assms(1,3) have b: "dropWhile isWhiteSpace (rev s) = rev s"
    by (cases "rev s") (auto simp: hd_rev)
  show ?thesis by (simp add: trim_def a b)
qed

lemma split_single: "sep \<notin> set a \<Longrightarrow> split sep a = [a]"
  by (induction a) auto

lemma split_append: "sep \<notin> set a \<Longrightarrow> split sep (a @ sep # r) = a # split sep r"
  by (induction a) auto

lemma firstWord_id: "CHR '' '' \<notin> set w \<Longrightarrow> firstWord w = w"
  by (simp add: firstWord_def split_single)

lemma split_not_Nil: "split sep s \<noteq> []"
  by (induction s) (auto split: list.splits)

lemma firstWord_Cons: "c \<noteq> CHR '' '' \<Longrightarrow> firstWord (c # s) \<noteq> []"
  using split_not_Nil [of "CHR '' ''" s] by (auto simp: firstWord_def split: list.splits)

lemma trim_hd: "trim s \<noteq> [] \<Longrightarrow> \<not> isWhiteSpace (hd (trim s))"
proof -
  let ?t = "dropWhile isWhiteSpace s"
  assume ne: "trim s \<noteq> []"
  have "rev (dropWhile isWhiteSpace (rev ?t)) @ rev (takeWhile isWhiteSpace (rev ?t)) = ?t"
    by (metis rev_append rev_rev_ident takeWhile_dropWhile_id)
  then have "trim s @ rev (takeWhile isWhiteSpace (rev ?t)) = ?t"
    by (simp add: trim_def)
  with ne have h: "hd (trim s) = hd ?t" and tne: "?t \<noteq> []"
    by (metis hd_append2, metis append_is_Nil_conv)
  from tne have "\<not> isWhiteSpace (hd ?t)" by (rule hd_dropWhile)
  with h show ?thesis by simp
qed

lemma firstWord_trim: "trim s \<noteq> [] \<Longrightarrow> firstWord (trim s) \<noteq> []"
proof -
  assume ne: "trim s \<noteq> []"
  then obtain c cs where t: "trim s = c # cs" by (cases "trim s") auto
  from trim_hd [OF ne] t have "\<not> isWhiteSpace c" by simp
  then have "c \<noteq> CHR '' ''" by (auto simp: isWhiteSpace_def)
  then show ?thesis unfolding t by (rule firstWord_Cons)
qed

lemma status_exported:
  "trim (statusLabel s) = statusLabel s"
  "statusLabel s \<noteq> []"
  "setStatus (statusLabel s) x = x\<lparr>x_aliveStatus := s\<rparr>"
  by (cases s; simp add: statusLabel_def trim_def isWhiteSpace_def setStatus_def)+

lemma category_exported_each:
  "getCategoryFromFolder (categoryLabel MYTHIC) = MYTHIC"
  "getCategoryFromFolder (categoryLabel GOLD) = GOLD"
  "getCategoryFromFolder (categoryLabel SILVER) = SILVER"
  "getCategoryFromFolder (categoryLabel COMMON) = COMMON"
  "getCategoryFromFolder (categoryLabel TAP_ROOM) = TAP_ROOM"
  by code_simp+

lemma category_exported: "getCategoryFromFolder (categoryLabel c) = c"
  by (cases c) (simp_all add: category_exported_each)

lemma matchBr_None: "c \<noteq> CHR ''<'' \<Longrightarrow> matchBr (c # cs) = None"
  by (simp add: matchBr_def split: list.splits)

lemma matchTag_None: "c \<noteq> CHR ''<'' \<Longrightarrow> matchTag (c # cs) = None"
  by (simp add: matchTag_def)

lemma replaceBr_id: "CHR ''<'' \<notin> set s \<Longrightarrow> replaceBr s = s"
  by (induction s) (auto simp: matchBr_None)

lemma stripTags_id: "CHR ''<'' \<notin> set s \<Longrightarrow> stripTags s = s"
  by (induction s) (auto simp: matchTag_None)

lemma cleanDesc_id: "CHR ''<'' \<notin> set s \<Longrightarrow> trim s = s \<Longrightarrow> cleanDesc s = s"
  by (simp add: cleanDesc_def replaceBr_id stripTags_id)

lemma fields_exportedPlacemark:
  assumes "trim w \<noteq> []" "trim m \<noteq> []"
  shows "extractFields h (exportedPlacemark nm d a w m (statusLabel s) c)
     = \<lparr>x_website = firstWord (trim w), x_googleMapsUri = trim m, x_address = trim a,
        x_aliveStatus = s\<rparr>"
  using assms firstWord_trim [OF assms(1)]
  by (simp add: extractFields_def data_exportedPlacemark dataStep_exported status_exported
      Let_def)

lemma coords_exported:
  assumes "numberText x" "numberText y"
  shows "trim (x @ CHR '','' # y @ '',0'') = x @ CHR '','' # y @ '',0''"
    "split (CHR '','') (x @ CHR '','' # y @ '',0'') = [x, y, ''0'']"
proof -
  from assms(1) obtain c cs where x: "x = c # cs" and c: "\<not> isWhiteSpace c"
    by (cases x) (auto simp: numberText_def)
  have z: "\<not> isWhiteSpace (CHR ''0'')" by (simp add: isWhiteSpace_def)
  show "trim (x @ CHR '','' # y @ '',0'') = x @ CHR '','' # y @ '',0''"
    by (rule trim_id) (simp_all add: x c z)
  from assms have "CHR '','' \<notin> set x" "CHR '','' \<notin> set y"
    by (simp_all add: numberText_simps)
  then show "split (CHR '','') (x @ CHR '','' # y @ '',0'') = [x, y, ''0'']"
    by (simp add: split_append)
qed

lemma decode_export:
  assumes pop: "address v = Some a" "a \<noteq> []" "website v = Some w" "w \<noteq> []"
    "googleMapsUri v = Some m" "m \<noteq> []" "aliveStatus v = Some s"
    "cdataSafe (name v)" "cdataSafe (description v)" "cdataSafe a" "cdataSafe w" "cdataSafe m"
    "numberText (ns (lng (coordinates v)))" "numberText (ns (lat (coordinates v)))"
  and ne: "name v \<noteq> []" "trim w \<noteq> []" "trim m \<noteq> []"
  and nn: "\<not> isNaN (parseFloat (ns (lat (coordinates v))))"
    "\<not> isNaN (parseFloat (ns (lng (coordinates v))))"
  shows "decodeKML h g (parseFromString (exportKML ns [v]))
     = [\<lparr>id' = g 0, name = name v, description = cleanDesc (description v),
         category = category v,
         coordinates = \<lparr>lat = parseFloat (ns (lat (coordinates v))),
                         lng = parseFloat (ns (lng (coordinates v)))\<rparr>,
         address = Some (trim a), website = Some (firstWord (trim w)),
         googleMapsUri = Some (trim m), aliveStatus = Some s, lastAliveCheck = None\<rparr>]"
proof -
  let ?x = "ns (lng (coordinates v))" and ?y = "ns (lat (coordinates v))"
  let ?c = "?x @ CHR '','' # ?y @ '',0''"
  let ?pm = "exportedPlacemark (name v) (description v) a w m (statusLabel s) ?c"
  have p: "parseFromString (exportKML ns [v])
      = exportedDocument (categoryLabel (category v)) ?pm"
    by (rule parse_export [OF pop])
  have c: "trim ?c = ?c" "split (CHR '','') ?c = [?x, ?y, ''0'']"
    using coords_exported [OF pop(13,14)] by simp_all
  have f: "extractFields h ?pm
     = \<lparr>x_website = firstWord (trim w), x_googleMapsUri = trim m, x_address = trim a,
        x_aliveStatus = s\<rparr>"
    by (rule fields_exportedPlacemark [OF ne(2,3)])
  have pp: "parsePlacemark h (g 0) ?pm (category v)
     = Some (decodedBrewery (g 0) ?pm (category v)
          \<lparr>x_website = firstWord (trim w), x_googleMapsUri = trim m, x_address = trim a,
            x_aliveStatus = s\<rparr> (parseFloat ?y) (parseFloat ?x))"
    using nn
    by (simp add: parsePlacemark_def name_exportedPlacemark c first_def parseFloatOpt_def f
        Let_def)
  have db: "decodedBrewery (g 0) ?pm (category v)
          \<lparr>x_website = firstWord (trim w), x_googleMapsUri = trim m, x_address = trim a,
            x_aliveStatus = s\<rparr> (parseFloat ?y) (parseFloat ?x)
     = \<lparr>id' = g 0, name = name v, description = cleanDesc (description v),
         category = category v,
         coordinates = \<lparr>lat = parseFloat ?y, lng = parseFloat ?x\<rparr>,
         address = Some (trim a), website = Some (firstWord (trim w)),
         googleMapsUri = Some (trim m), aliveStatus = Some s, lastAliveCheck = None\<rparr>"
    using ne firstWord_trim [OF ne(2)]
    by (simp add: decodedBrewery_def name_exportedPlacemark)
  show ?thesis
    by (simp add: p decode_exportedDocument category_exported pp db)
qed

lemma cdataSafe_plain:
  "list_all isXmlChar s \<Longrightarrow> CHR '']'' \<notin> set s \<Longrightarrow> CHR 0x0D \<notin> set s \<Longrightarrow> cdataSafe s"
  by (simp add: cdataSafe_def no_bracket_no_cdata_end)

lemma sample_texts:
  "cdataSafe ''Row 44''" "cdataSafe ''Craft beer bar''" "cdataSafe ''Calle Mayor 1''"
  "cdataSafe ''Calle Mayor 1 ''"
  "cdataSafe ''https://row44.example''" "cdataSafe ''https://row44.example/our beers''"
  "cdataSafe ''https://maps.google.com/?q=1''"
  by (rule cdataSafe_plain; simp add: isXmlChar_def)+

lemma sample_numbers:
  "numberText ''-3.7''" "numberText ''40.1''"
  by (simp_all add: numberText_def isXmlChar_def isWhiteSpace_def)

lemma sample_trims:
  "trim ''Craft beer bar'' = ''Craft beer bar''"
  "trim ''Calle Mayor 1'' = ''Calle Mayor 1''"
  "trim ''Calle Mayor 1 '' = ''Calle Mayor 1''"
  "trim ''https://row44.example'' = ''https://row44.example''"
  "trim ''https://row44.example/our beers'' = ''https://row44.example/our beers''"
  "trim ''https://maps.google.com/?q=1'' = ''https://maps.google.com/?q=1''"
  by (simp_all add: trim_def isWhiteSpace_def)

lemma sample_firstWord:
  "firstWord ''https://row44.example/our beers'' = ''https://row44.example/our''"
  by (simp add: firstWord_def)

lemma sample_strings:
  "sampleNumToString (Finite (- (37 / 10))) = ''-3.7''"
  "sampleNumToString (Finite (401 / 10)) = ''40.1''"
  by (simp_all add: sampleNumToString_def)

subsection \<open>The sample import text\<close>

lemma tokenize_import_parts:
  "tokenize (''<kml>'' @ r) = map_option (Cons (TOpen ''kml'' [])) (tokenize r)"
  "tokenize (''ROW 44'' @ CHR ''<'' # r)
     = map_option (Cons (TText ''ROW 44'')) (tokenize (CHR ''<'' # r))"
  "tokenize (''New Place'' @ CHR ''<'' # r)
     = map_option (Cons (TText ''New Place'')) (tokenize (CHR ''<'' # r))"
  "tokenize (''-3.7,40.1'' @ CHR ''<'' # r)
     = map_option (Cons (TText ''-3.7,40.1'')) (tokenize (CHR ''<'' # r))"
  using tokenize_tag [of "''kml''" "TOpen ''kml'' []" r]
     apply (simp add: tok_defs)
  using tokenize_text [of "''ROW 44''" r] apply simp
  using tokenize_text [of "''New Place''" r] apply simp
  using tokenize_text [of "''-3.7,40.1''" r] apply simp
  done

lemma tokenize_importText:
  "tokenize importText
     = Some [TOpen ''kml'' [], TOpen ''Document'' [],
         TOpen ''Placemark'' [], TOpen ''name'' [], TText ''ROW 44'', TClose ''name'',
         TOpen ''Point'' [], TOpen ''coordinates'' [], TText ''-3.7,40.1'',
         TClose ''coordinates'', TClose ''Point'', TClose ''Placemark'',
         TOpen ''Placemark'' [], TOpen ''name'' [], TText ''New Place'', TClose ''name'',
         TOpen ''Point'' [], TOpen ''coordinates'' [], TText ''-3.7,40.1'',
         TClose ''coordinates'', TClose ''Point'', TClose ''Placemark'',
         TClose ''Document'', TClose ''kml'']"
  by (simp add: importText_def tokenize_cons tokenize_import_parts [unfolded append_Cons append_Nil]
      tokenize.simps(1))

lemma parse_importText:
  "parseFromString importText
     = documentOf [placemarkElement ''ROW 44'' ''-3.7,40.1'',
                   placemarkElement ''New Place'' ''-3.7,40.1'']"
proof -
  have c: "list_all isXmlChar importText" "CHR 0x0D \<notin> set importText"
    by (simp_all add: importText_def isXmlChar_def)
  have b: "build [TOpen ''kml'' [], TOpen ''Document'' [],
         TOpen ''Placemark'' [], TOpen ''name'' [], TText ''ROW 44'', TClose ''name'',
         TOpen ''Point'' [], TOpen ''coordinates'' [], TText ''-3.7,40.1'',
         TClose ''coordinates'', TClose ''Point'', TClose ''Placemark'',
         TOpen ''Placemark'' [], TOpen ''name'' [], TText ''New Place'', TClose ''name'',
         TOpen ''Point'' [], TOpen ''coordinates'' [], TText ''-3.7,40.1'',
         TClose ''coordinates'', TClose ''Point'', TClose ''Placemark'',
         TClose ''Document'', TClose ''kml''] [(''#document'', [], [])]
     = Some (documentOf [placemarkElement ''ROW 44'' ''-3.7,40.1'',
                   placemarkElement ''New Place'' ''-3.7,40.1''])"
    by (simp add: documentOf_def placemarkElement_def)
  have e: "childNodes (documentOf ps) = [Element ''kml'' [] [Element ''Document'' [] ps]]" for ps
    by (simp add: documentOf_def)
  show ?thesis
    using c
    by (simp add: parseFromString_def normalizeLineEnds_id tokenize_importText b e isElement_def)
      (simp add: documentOf_def placemarkElement_def)
qed

lemma parsePlacemark_named:
  "nm \<noteq> [] \<Longrightarrow>
   parsePlacemark noAnchors i (placemarkElement nm ''-3.7,40.1'') cat
   = Some \<lparr>id' = i, name = nm, description = [], category = cat,
      coordinates = \<lparr>lat = Finite (401 / 10), lng = Finite (- (37 / 10))\<rparr>,
      address = Some [], website = None, googleMapsUri = None,
      aliveStatus = Some Unknown, lastAliveCheck = None\<rparr>"
  by (simp add: parsePlacemark_def coordsRaw_placemarkElement trim_examples split_examples
      Let_def first_def parseFloatOpt_def parseFloat_examples fields_placemarkElement
      decodedBrewery_placemarkElement)

lemma decode_importText:
  "decodeKML noAnchors sampleId (parseFromString importText)
     = [importedRecord (sampleId 0) ''ROW 44'', importedRecord (sampleId 1) ''New Place'']"
  by (simp add: parse_importText decodeKML_def elements_documentOf parsePlacemark_named
      importedRecord_def)


lemma length_filter_all: "(length (filter P xs) = length xs) = list_all P xs"
proof (induction xs)
  case Nil
  then show ?case by simp
next
  case (Cons x xs)
  have "length (filter P xs) \<noteq> Suc (length xs)"
    using length_filter_le [of P xs] by arith
  with Cons show ?case by auto
qed

subsection \<open>Names in the committed collection\<close>


lemma namesUnique_append:
  "namesUnique (xs @ ys)
     = (namesUnique xs \<and> namesUnique ys
        \<and> list_all (\<lambda>b. toLowerCase (name b) \<notin> existingNames xs) ys)"
  by (auto simp: namesUnique_def existingNames_def list_all_iff image_iff) metis+

lemma namesUnique_filter: "namesUnique bs \<Longrightarrow> namesUnique (filter P bs)"
  by (simp add: namesUnique_def distinct_map_filter)

lemma namesUnique_merge:
  "namesUnique prev \<Longrightarrow> namesUnique newBreweries \<Longrightarrow>
   namesUnique (mergeImported prev newBreweries)"
  by (simp add: mergeImported_def namesUnique_append uniqueNew_def namesUnique_filter
      list_all_iff)












subsection \<open>The import merge\<close>

lemma mergeImported_eq:
  "mergeImported existing incoming =
     existing @ filter (\<lambda>b. \<not> list_ex (\<lambda>e. toLowerCase (name e) = toLowerCase (name b)) existing)
                  incoming"
  by (simp add: mergeImported_def uniqueNew_def existingNames_def list_ex_iff image_iff) metis

text \<open>
  C3. The merge returns the existing collection followed by exactly the incoming records
  whose lower-cased name is the lower-cased name of no existing record, in their order.
  With \<open>Row 44\<close> existing, an incoming \<open>ROW 44\<close> is dropped and \<open>New Place\<close> is added.
\<close>

theorem mergeImported_dedup:
  "mergeImported existing incoming =
     existing @ filter (\<lambda>b. \<not> list_ex (\<lambda>e. toLowerCase (name e) = toLowerCase (name b)) existing)
                  incoming
   \<and> mergeImported [b\<lparr>name := ''Row 44''\<rparr>]
         [c\<lparr>name := ''ROW 44''\<rparr>, d\<lparr>name := ''New Place''\<rparr>]
       = [b\<lparr>name := ''Row 44''\<rparr>, d\<lparr>name := ''New Place''\<rparr>]"
proof (rule conjI)
  show "mergeImported existing incoming =
     existing @ filter (\<lambda>b. \<not> list_ex (\<lambda>e. toLowerCase (name e) = toLowerCase (name b)) existing)
                  incoming"
    by (rule mergeImported_eq)
  show "mergeImported [b\<lparr>name := ''Row 44''\<rparr>]
         [c\<lparr>name := ''ROW 44''\<rparr>, d\<lparr>name := ''New Place''\<rparr>]
       = [b\<lparr>name := ''Row 44''\<rparr>, d\<lparr>name := ''New Place''\<rparr>]"
    by (simp add: mergeImported_def uniqueNew_def existingNames_def toLowerCase_examples)
qed

subsection \<open>Promotion\<close>

text \<open>
  C4, as the code has it. After \<^const>\<open>handleAddToMap\<close> the committed collection is the
  old one followed by the record, and the found-set has lost every record with the
  record's identifier: the identifier occurs in no record of the found-set and, when no
  committed record carried it, in exactly one committed record. The handler does not
  look the record up in the found-set: applied a second time it leaves the found-set
  as it is and appends the record again, and applied to a record whose identifier is
  not in the found-set it leaves the found-set as it is.
\<close>

theorem handleAddToMap_moves:
  "breweries (handleAddToMap b st) = breweries st @ [b]
   \<and> foundBreweries (handleAddToMap b st) = filter (\<lambda>x. id' x \<noteq> id' b) (foundBreweries st)
   \<and> length (filter (\<lambda>x. id' x = id' b) (foundBreweries (handleAddToMap b st))) = 0
   \<and> (\<not> list_ex (\<lambda>x. id' x = id' b) (breweries st) \<longrightarrow>
        length (filter (\<lambda>x. id' x = id' b) (breweries (handleAddToMap b st))) = 1)
   \<and> foundBreweries (handleAddToMap b (handleAddToMap b st))
        = foundBreweries (handleAddToMap b st)
   \<and> breweries (handleAddToMap b (handleAddToMap b st)) = breweries st @ [b, b]
   \<and> (\<not> list_ex (\<lambda>x. id' x = id' b) (foundBreweries st) \<longrightarrow>
        foundBreweries (handleAddToMap b st) = foundBreweries st)"
proof (intro conjI impI)
  show "length (filter (\<lambda>x. id' x = id' b) (foundBreweries (handleAddToMap b st))) = 0"
    by (simp add: handleAddToMap_def)
  show "length (filter (\<lambda>x. id' x = id' b) (breweries (handleAddToMap b st))) = 1"
    if "\<not> list_ex (\<lambda>x. id' x = id' b) (breweries st)"
  proof -
    from that have "filter (\<lambda>x. id' x = id' b) (breweries st) = []"
      by (simp add: list_ex_iff filter_empty_conv)
    then show ?thesis by (simp add: handleAddToMap_def)
  qed
  show "foundBreweries (handleAddToMap b st) = foundBreweries st"
    if "\<not> list_ex (\<lambda>x. id' x = id' b) (foundBreweries st)"
    using that by (simp add: handleAddToMap_def list_ex_iff filter_id_conv)
qed (simp_all add: handleAddToMap_def)

theorem handleAddToMap_moves_witness:
  "breweries (handleAddToMap (newBrewery ''c'') sampleState)
     = [newBrewery ''a'', newBrewery ''b'', newBrewery ''c'']
   \<and> foundBreweries (handleAddToMap (newBrewery ''c'') sampleState) = []
   \<and> length (filter (\<lambda>x. id' x = ''c'')
        (breweries (handleAddToMap (newBrewery ''c'') sampleState))) = 1
   \<and> foundBreweries (handleAddToMap (newBrewery ''d'') sampleState) = [newBrewery ''c'']"
proof -
  have bs: "breweries sampleState = [newBrewery ''a'', newBrewery ''b'']"
    and fs: "foundBreweries sampleState = [newBrewery ''c'']"
    by (simp_all add: sampleState_def)
  have ids: "id' (newBrewery ''a'') = ''a''" "id' (newBrewery ''b'') = ''b''"
    "id' (newBrewery ''c'') = ''c''" "id' (newBrewery ''d'') = ''d''"
    by (simp_all add: newBrewery_def)
  have n1: "\<not> list_ex (\<lambda>x. id' x = id' (newBrewery ''c'')) (breweries sampleState)"
    by (simp add: bs ids)
  have n2: "\<not> list_ex (\<lambda>x. id' x = id' (newBrewery ''d'')) (foundBreweries sampleState)"
    by (simp add: fs ids)
  from handleAddToMap_moves [of "newBrewery ''c''" sampleState] n1
  have a: "breweries (handleAddToMap (newBrewery ''c'') sampleState)
     = [newBrewery ''a'', newBrewery ''b'', newBrewery ''c'']"
    "foundBreweries (handleAddToMap (newBrewery ''c'') sampleState) = []"
    "length (filter (\<lambda>x. id' x = ''c'')
        (breweries (handleAddToMap (newBrewery ''c'') sampleState))) = 1"
    by (simp_all add: bs fs ids)
  from handleAddToMap_moves [of "newBrewery ''d''" sampleState] n2
  have b: "foundBreweries (handleAddToMap (newBrewery ''d'') sampleState) = [newBrewery ''c'']"
    by (simp add: fs)
  from a b show ?thesis by simp
qed

theorem handleAddToMap_repeat_counterexample:
  "breweries (handleAddToMap (newBrewery ''c'') (handleAddToMap (newBrewery ''c'') sampleState))
     = [newBrewery ''a'', newBrewery ''b'', newBrewery ''c'', newBrewery ''c'']
   \<and> breweries (handleAddToMap (newBrewery ''c'') (handleAddToMap (newBrewery ''c'') sampleState))
     \<noteq> breweries (handleAddToMap (newBrewery ''c'') sampleState)
   \<and> foundBreweries (handleAddToMap (newBrewery ''c'') sampleState) = []
   \<and> breweries (handleAddToMap (newBrewery ''d'') sampleState) \<noteq> breweries sampleState"
  by (simp add: handleAddToMap_def sampleState_def)

subsection \<open>Placemarks without valid coordinates\<close>





subsection \<open>The edit dialog\<close>





subsection \<open>The message of an import\<close>

text \<open>
  C7, as the code has it. When the decoding of a file gives at least one record, the
  message of an import that is not silent carries the number of records decoded,
  \<^verbatim>\<open>newBreweries.length\<close>, whether or not they are added. The committed collection grows
  by the decoded records whose lower-cased name is no committed name; their number is at
  most the number in the message, and equal to it exactly when no decoded name is a
  committed name. A silent import shows no message.
\<close>

theorem parseKML_alert_counts_decoded:
  assumes "decodeKML h g (parseFromString xmlString) = newBreweries" "newBreweries \<noteq> []"
  shows "snd (parseKML h g xmlString False st) = Some (ImportedAlert (length newBreweries))
    \<and> snd (parseKML h g xmlString True st) = None
    \<and> breweries (fst (parseKML h g xmlString silent st))
        = breweries st @ uniqueNew (breweries st) newBreweries
    \<and> length (breweries (fst (parseKML h g xmlString silent st)))
        = length (breweries st) + length (uniqueNew (breweries st) newBreweries)
    \<and> length (uniqueNew (breweries st) newBreweries) \<le> length newBreweries
    \<and> ((length (uniqueNew (breweries st) newBreweries) = length newBreweries)
        = list_all (\<lambda>b. toLowerCase (name b) \<notin> existingNames (breweries st)) newBreweries)"
  using assms
  by (simp add: parseKML_def parseKML_commit_def mergeImported_def uniqueNew_def
      length_filter_all)

lemma commit_importText:
  "parseKML noAnchors sampleId importText silent rowState
     = (rowState\<lparr>breweries := [(newBrewery ''a'')\<lparr>name := ''Row 44''\<rparr>,
                                 importedRecord (sampleId 1) ''New Place'']\<rparr>,
        if silent then None else Some (ImportedAlert 2))"
  by (simp add: parseKML_def decode_importText parseKML_commit_def mergeImported_def
      uniqueNew_def existingNames_def rowState_def importedRecord_def toLowerCase_examples)

theorem parseKML_alert_counts_decoded_witness:
  "snd (parseKML noAnchors sampleId importText False rowState) = Some (ImportedAlert 2)
   \<and> snd (parseKML noAnchors sampleId importText True rowState) = None
   \<and> length (breweries (fst (parseKML noAnchors sampleId importText False rowState)))
       = 1 + length (uniqueNew (breweries rowState)
           [importedRecord (sampleId 0) ''ROW 44'', importedRecord (sampleId 1) ''New Place''])"
proof -
  have ne: "[importedRecord (sampleId 0) ''ROW 44'', importedRecord (sampleId 1) ''New Place'']
      \<noteq> []"
    by simp
  from parseKML_alert_counts_decoded [OF decode_importText ne, of rowState False]
  show ?thesis by (simp add: rowState_def)
qed

theorem parseKML_alert_counterexample:
  "snd (parseKML noAnchors sampleId importText False rowState) = Some (ImportedAlert 2)
   \<and> length (breweries (fst (parseKML noAnchors sampleId importText False rowState)))
       = length (breweries rowState) + 1"
proof -
  have b: "length (breweries rowState) = 1" by (simp add: rowState_def)
  show ?thesis by (simp add: commit_importText b)
qed

subsection \<open>The health check\<close>

text \<open>
  C8. \<^const>\<open>healthUpdate\<close> keeps the length and every record whose identifier is not the
  given one; a record with the identifier becomes the same record with the new
  \<^verbatim>\<open>aliveStatus\<close> and \<^verbatim>\<open>lastAliveCheck\<close>, every other field as before. The handler
  applies it to the committed collection when the identifier is found there, and
  otherwise to the found-set when it is found there; the other collection is unchanged.
\<close>

theorem healthUpdate_frame:
  "length (healthUpdate i status date prev) = length prev
   \<and> (\<forall>k < length prev.
        (id' (prev ! k) \<noteq> i \<longrightarrow> healthUpdate i status date prev ! k = prev ! k)
      \<and> (id' (prev ! k) = i \<longrightarrow>
           healthUpdate i status date prev ! k =
             (prev ! k)\<lparr>aliveStatus := Some status, lastAliveCheck := Some date\<rparr>
         \<and> id' (healthUpdate i status date prev ! k) = id' (prev ! k)
         \<and> name (healthUpdate i status date prev ! k) = name (prev ! k)
         \<and> description (healthUpdate i status date prev ! k) = description (prev ! k)
         \<and> category (healthUpdate i status date prev ! k) = category (prev ! k)
         \<and> coordinates (healthUpdate i status date prev ! k) = coordinates (prev ! k)
         \<and> address (healthUpdate i status date prev ! k) = address (prev ! k)
         \<and> website (healthUpdate i status date prev ! k) = website (prev ! k)
         \<and> googleMapsUri (healthUpdate i status date prev ! k) = googleMapsUri (prev ! k)))
   \<and> (find (\<lambda>b. id' b = i) (breweries st) = Some t \<and> check (name t) = (status, date) \<longrightarrow>
        breweries (handleCheckStatus check i st) = healthUpdate i status date (breweries st)
        \<and> foundBreweries (handleCheckStatus check i st) = foundBreweries st)
   \<and> (find (\<lambda>b. id' b = i) (breweries st) = None
        \<and> find (\<lambda>b. id' b = i) (foundBreweries st) = Some t
        \<and> check (name t) = (status, date) \<longrightarrow>
        foundBreweries (handleCheckStatus check i st)
          = healthUpdate i status date (foundBreweries st)
        \<and> breweries (handleCheckStatus check i st) = breweries st)"
proof (intro conjI allI impI)
  show "length (healthUpdate i status date prev) = length prev"
    by (simp add: healthUpdate_def)
next
  assume "find (\<lambda>b. id' b = i) (breweries st) = Some t \<and> check (name t) = (status, date)"
  then show "breweries (handleCheckStatus check i st) = healthUpdate i status date (breweries st)"
    and "foundBreweries (handleCheckStatus check i st) = foundBreweries st"
    by (simp_all add: handleCheckStatus_def findForCheck_def finishCheck_def)
next
  assume "find (\<lambda>b. id' b = i) (breweries st) = None
        \<and> find (\<lambda>b. id' b = i) (foundBreweries st) = Some t
        \<and> check (name t) = (status, date)"
  then show "foundBreweries (handleCheckStatus check i st)
          = healthUpdate i status date (foundBreweries st)"
    and "breweries (handleCheckStatus check i st) = breweries st"
    by (simp_all add: handleCheckStatus_def findForCheck_def finishCheck_def)
qed (simp_all add: healthUpdate_def)

theorem healthUpdate_frame_witness:
  "healthUpdate ''b'' Active ''2026-01-01'' (breweries sampleState) ! 0 = newBrewery ''a''
   \<and> healthUpdate ''b'' Active ''2026-01-01'' (breweries sampleState) ! 1
       = (newBrewery ''b'')\<lparr>aliveStatus := Some Active, lastAliveCheck := Some ''2026-01-01''\<rparr>
   \<and> breweries (handleCheckStatus (\<lambda>n. (Active, ''2026-01-01'')) ''b'' sampleState)
       = healthUpdate ''b'' Active ''2026-01-01'' (breweries sampleState)
   \<and> foundBreweries (handleCheckStatus (\<lambda>n. (Active, ''2026-01-01'')) ''b'' sampleState)
       = [newBrewery ''c'']
   \<and> foundBreweries (handleCheckStatus (\<lambda>n. (Inactive, ''2026-01-02'')) ''c'' sampleState)
       = healthUpdate ''c'' Inactive ''2026-01-02'' [newBrewery ''c'']
   \<and> breweries (handleCheckStatus (\<lambda>n. (Inactive, ''2026-01-02'')) ''c'' sampleState)
       = [newBrewery ''a'', newBrewery ''b'']"
proof -
  have bs: "breweries sampleState = [newBrewery ''a'', newBrewery ''b'']"
    and fs: "foundBreweries sampleState = [newBrewery ''c'']"
    by (simp_all add: sampleState_def)
  have ids: "id' (newBrewery ''a'') = ''a''" "id' (newBrewery ''b'') = ''b''"
    "id' (newBrewery ''c'') = ''c''"
    by (simp_all add: newBrewery_def)
  have f1: "find (\<lambda>b. id' b = ''b'') (breweries sampleState) = Some (newBrewery ''b'')"
    by (simp add: bs ids)
  have f2: "find (\<lambda>b. id' b = ''c'') (breweries sampleState) = None"
    "find (\<lambda>b. id' b = ''c'') (foundBreweries sampleState) = Some (newBrewery ''c'')"
    by (simp_all add: bs fs ids)
  have k: "(0::nat) < length (breweries sampleState)" "(1::nat) < length (breweries sampleState)"
    by (simp_all add: bs)
  note th1 = healthUpdate_frame [of "''b''" Active "''2026-01-01''" "breweries sampleState"
      sampleState "newBrewery ''b''" "\<lambda>n. (Active, ''2026-01-01'')"]
  note th2 = healthUpdate_frame [of "''c''" Inactive "''2026-01-02''" "[]"
      sampleState "newBrewery ''c''" "\<lambda>n. (Inactive, ''2026-01-02'')"]
  from th1 k have a: "healthUpdate ''b'' Active ''2026-01-01'' (breweries sampleState) ! 0
      = newBrewery ''a''"
    by (simp add: bs ids)
  from th1 k have b: "healthUpdate ''b'' Active ''2026-01-01'' (breweries sampleState) ! 1
       = (newBrewery ''b'')\<lparr>aliveStatus := Some Active, lastAliveCheck := Some ''2026-01-01''\<rparr>"
    by (simp add: bs ids)
  from th1 f1 have c:
    "breweries (handleCheckStatus (\<lambda>n. (Active, ''2026-01-01'')) ''b'' sampleState)
       = healthUpdate ''b'' Active ''2026-01-01'' (breweries sampleState)"
    "foundBreweries (handleCheckStatus (\<lambda>n. (Active, ''2026-01-01'')) ''b'' sampleState)
       = [newBrewery ''c'']"
    by (simp_all add: fs)
  from th2 f2 have d:
    "foundBreweries (handleCheckStatus (\<lambda>n. (Inactive, ''2026-01-02'')) ''c'' sampleState)
       = healthUpdate ''c'' Inactive ''2026-01-02'' [newBrewery ''c'']"
    "breweries (handleCheckStatus (\<lambda>n. (Inactive, ''2026-01-02'')) ''c'' sampleState)
       = [newBrewery ''a'', newBrewery ''b'']"
    by (simp_all add: fs bs)
  from a b c d show ?thesis by simp
qed

subsection \<open>The round trip\<close>

text \<open>
  C1, for the records that the export and the import carry through unchanged. Let a
  record have a non-empty name, an address, a website, a maps link and a status; let its
  name, description, address, website and maps link be safe in a CDATA section; let the
  address, the website, the maps link and the description have no leading or trailing
  white space, the website no space and the description no \<open><\<close>; and let its
  coordinates be numbers other than NaN whose texts are read back by \<^const>\<open>parseFloat\<close>
  as the same numbers. Then decoding the export of the one-element collection gives
  exactly one record: the given one with a fresh identifier and no date of a health
  check, so equal to it on name, description, category, coordinates, address, website,
  maps link and status.
\<close>

theorem kml_round_trip:
  assumes "address v = Some a" "a \<noteq> []" "website v = Some w" "w \<noteq> []"
    "googleMapsUri v = Some m" "m \<noteq> []" "aliveStatus v = Some s"
    "cdataSafe (name v)" "cdataSafe (description v)" "cdataSafe a" "cdataSafe w" "cdataSafe m"
    "numberText (numToString (lng (coordinates v)))"
    "numberText (numToString (lat (coordinates v)))"
  and "name v \<noteq> []"
  and "trim a = a" "trim w = w" "CHR '' '' \<notin> set w" "trim m = m"
  and "trim (description v) = description v" "CHR ''<'' \<notin> set (description v)"
  and "parseFloat (numToString (lng (coordinates v))) = lng (coordinates v)"
    "parseFloat (numToString (lat (coordinates v))) = lat (coordinates v)"
    "\<not> isNaN (lng (coordinates v))" "\<not> isNaN (lat (coordinates v))"
  shows "decodeKML h g (parseFromString (exportKML numToString [v]))
     = [v\<lparr>id' := g 0, lastAliveCheck := None\<rparr>]"
proof -
  have "decodeKML h g (parseFromString (exportKML numToString [v]))
     = [\<lparr>id' = g 0, name = name v, description = cleanDesc (description v),
         category = category v,
         coordinates = \<lparr>lat = parseFloat (numToString (lat (coordinates v))),
                         lng = parseFloat (numToString (lng (coordinates v)))\<rparr>,
         address = Some (trim a), website = Some (firstWord (trim w)),
         googleMapsUri = Some (trim m), aliveStatus = Some s, lastAliveCheck = None\<rparr>]"
    using assms by (intro decode_export) simp_all
  also have "\<dots> = [v\<lparr>id' := g 0, lastAliveCheck := None\<rparr>]"
    using assms by (simp add: cleanDesc_id firstWord_id)
  finally show ?thesis .
qed


theorem kml_round_trip_witness:
  "decodeKML noAnchors sampleId (parseFromString (exportKML sampleNumToString [sampleVenue]))
     = [sampleVenue\<lparr>id' := sampleId 0, lastAliveCheck := None\<rparr>]"
proof -
  have v: "address sampleVenue = Some ''Calle Mayor 1''"
    "website sampleVenue = Some ''https://row44.example''"
    "googleMapsUri sampleVenue = Some ''https://maps.google.com/?q=1''"
    "aliveStatus sampleVenue = Some Active"
    "name sampleVenue = ''Row 44''" "description sampleVenue = ''Craft beer bar''"
    "lng (coordinates sampleVenue) = Finite (- (37 / 10))"
    "lat (coordinates sampleVenue) = Finite (401 / 10)"
    by (simp_all add: sampleVenue_def)
  show ?thesis
    by (rule kml_round_trip [of sampleVenue "''Calle Mayor 1''" "''https://row44.example''"
          "''https://maps.google.com/?q=1''" Active sampleNumToString noAnchors sampleId])
      (simp_all add: v sample_texts sample_numbers sample_trims sample_strings
        parseFloat_examples)
qed

theorem kml_round_trip_counterexample:
  "decodeKML noAnchors sampleId (parseFromString (exportKML sampleNumToString [spacedVenue]))
     = [spacedVenue\<lparr>id' := sampleId 0, address := Some ''Calle Mayor 1'',
          website := Some ''https://row44.example/our''\<rparr>]
   \<and> address (hd (decodeKML noAnchors sampleId
          (parseFromString (exportKML sampleNumToString [spacedVenue]))))
       \<noteq> address spacedVenue
   \<and> website (hd (decodeKML noAnchors sampleId
          (parseFromString (exportKML sampleNumToString [spacedVenue]))))
       \<noteq> website spacedVenue"
proof -
  have v: "address spacedVenue = Some ''Calle Mayor 1 ''"
    "website spacedVenue = Some ''https://row44.example/our beers''"
    "googleMapsUri spacedVenue = Some ''https://maps.google.com/?q=1''"
    "aliveStatus spacedVenue = Some Active"
    "name spacedVenue = ''Row 44''" "description spacedVenue = ''Craft beer bar''"
    "lng (coordinates spacedVenue) = Finite (- (37 / 10))"
    "lat (coordinates spacedVenue) = Finite (401 / 10)"
    by (simp_all add: spacedVenue_def)
  have "decodeKML noAnchors sampleId
          (parseFromString (exportKML sampleNumToString [spacedVenue]))
     = [\<lparr>id' = sampleId 0, name = name spacedVenue,
         description = cleanDesc (description spacedVenue),
         category = category spacedVenue,
         coordinates =
           \<lparr>lat = parseFloat (sampleNumToString (lat (coordinates spacedVenue))),
             lng = parseFloat (sampleNumToString (lng (coordinates spacedVenue)))\<rparr>,
         address = Some (trim ''Calle Mayor 1 ''),
         website = Some (firstWord (trim ''https://row44.example/our beers'')),
         googleMapsUri = Some (trim ''https://maps.google.com/?q=1''),
         aliveStatus = Some Active, lastAliveCheck = None\<rparr>]"
    by (rule decode_export)
      (simp_all add: v sample_texts sample_numbers sample_trims sample_strings
        parseFloat_examples)
  also have "\<dots> = [spacedVenue\<lparr>id' := sampleId 0, address := Some ''Calle Mayor 1'',
          website := Some ''https://row44.example/our''\<rparr>]"
    by (simp add: v sample_trims sample_firstWord sample_strings parseFloat_examples
        cleanDesc_id spacedVenue_def)
  finally have d: "decodeKML noAnchors sampleId
          (parseFromString (exportKML sampleNumToString [spacedVenue]))
     = [spacedVenue\<lparr>id' := sampleId 0, address := Some ''Calle Mayor 1'',
          website := Some ''https://row44.example/our''\<rparr>]" .
  show ?thesis
    by (simp add: d v)
qed

subsection \<open>Uniqueness of the committed names\<close>





end
